theory Spec2Isabelle
  imports Complex_Main "HOL-Library.Multiset"
begin

section \<open>Data model\<close>

text \<open>
  Python text (queries, documents, prompts) is a sequence of Unicode code points;
  it is modelled as a list of natural numbers, one per code point, so that the
  Japanese keywords of the classifier can be written down.  Identifiers that the
  program only ever writes in ASCII (dictionary keys, strategy tags) are HOL strings.
  Python floats are modelled as real numbers: rounding is not modelled.
\<close>

type_synonym pystr = "nat list"

text \<open>Values stored in a metadata dictionary (the index allows str, int, float, bool).\<close>

datatype mval = MStr pystr | MInt int | MFloat real | MBool bool

type_synonym metadata = "(string \<times> mval) list"

text \<open>\<^verbatim>\<open>models.SearchResult\<close>.\<close>

record SearchResult =
  content :: pystr
  source :: pystr
  score :: real
  metadata :: metadata

text \<open>The exceptions the modelled code can meet; all of them derive from \<^verbatim>\<open>Exception\<close>.\<close>

datatype error =
    ValidationError
  | TypeError
  | IndexError
  | KeyError
  | AttributeError
  | ValueError
  | ZeroDivisionError
  | ExternalError string

section \<open>Confidence estimator (\<^verbatim>\<open>SupportAgent._calculate_confidence\<close>)\<close>

text \<open>
  \<^verbatim>\<open>max(generator)\<close> and \<^verbatim>\<open>sum(generator)\<close> run left to right over the sequence;
  \<^verbatim>\<open>max\<close> of an empty sequence raises \<^verbatim>\<open>ValueError\<close>, and a float division by zero
  raises \<^verbatim>\<open>ZeroDivisionError\<close>.
\<close>

fun py_max :: "real list \<Rightarrow> error + real" where
  "py_max [] = Inl ValueError"
| "py_max (x # xs) = Inr (foldl (\<lambda>m y. if y > m then y else m) x xs)"

definition py_sum :: "real list \<Rightarrow> real" where
  "py_sum xs = foldl (+) 0 xs"

definition py_truediv :: "real \<Rightarrow> real \<Rightarrow> error + real" where
  "py_truediv a b = (if b = 0 then Inl ZeroDivisionError else Inr (a / b))"

text \<open>\<^verbatim>\<open>d.get(k, default)\<close> on a dictionary.\<close>

fun dict_get :: "('k \<times> 'v) list \<Rightarrow> 'k \<Rightarrow> 'v \<Rightarrow> 'v" where
  "dict_get [] k d = d"
| "dict_get ((k', v) # kvs) k d = (if k' = k then v else dict_get kvs k d)"

definition strategy_factors :: "(string \<times> real) list" where
  "strategy_factors =
     [(''faq_focus'', 0.9), (''manual_focus'', 0.8), (''balanced'', 0.85), (''error'', 0.3)]"

definition calculate_confidence :: "SearchResult list \<Rightarrow> string \<Rightarrow> error + real" where
  "calculate_confidence search_results search_strategy =
     (if search_results = [] then Inr 0.0
      else
        case py_max (map score search_results) of
          Inl e \<Rightarrow> Inl e
        | Inr max_score \<Rightarrow>
           (case py_truediv (py_sum (map score search_results)) (real (length search_results)) of
              Inl e \<Rightarrow> Inl e
            | Inr avg_score \<Rightarrow>
               (let result_count_factor = min (real (length search_results) / 3.0) 1.0;
                    strategy_factor = dict_get strategy_factors search_strategy 0.7;
                    confidence =
                      (max_score * 0.6 + avg_score * 0.4) * result_count_factor * strategy_factor
                in Inr (max 0.0 (min 1.0 confidence)))))"

text \<open>The estimator in closed form, as a function of maximum, mean, count and tag.\<close>

definition confidence_of :: "real \<Rightarrow> real \<Rightarrow> nat \<Rightarrow> string \<Rightarrow> real" where
  "confidence_of mx mean n st =
     max 0 (min 1 ((0.6 * mx + 0.4 * mean) * min (real n / 3) 1 * dict_get strategy_factors st 0.7))"

text \<open>The spec's summary statistics of a result sequence.\<close>

definition spec_max_score :: "SearchResult list \<Rightarrow> real" where
  "spec_max_score rs = Max (set (map score rs))"

definition spec_mean_score :: "SearchResult list \<Rightarrow> real" where
  "spec_mean_score rs = sum_list (map score rs) / real (length rs)"

text \<open>A sample result carrying a given score, for the concrete instances below.\<close>

definition sample_result :: "real \<Rightarrow> SearchResult" where
  "sample_result s = \<lparr>content = [], source = [], score = s, metadata = []\<rparr>"

section \<open>The confidence estimator in float arithmetic\<close>








text \<open>
  A rounding for concrete instances: to the nearest multiple of \<open>1/1000\<close>, halves
  upwards.
\<close>

definition grid_rounding :: "real \<Rightarrow> real" where
  "grid_rounding x = real_of_int \<lfloor>x * 1000 + 1 / 2\<rfloor> / 1000"

section \<open>Python text operations\<close>

text \<open>\<^verbatim>\<open>hay.startswith(needle)\<close> and the substring test \<^verbatim>\<open>needle in hay\<close>.\<close>

fun py_startswith :: "'a list \<Rightarrow> 'a list \<Rightarrow> bool" where
  "py_startswith hay [] = True"
| "py_startswith [] (n # ns) = False"
| "py_startswith (h # hs) (n # ns) = (h = n \<and> py_startswith hs ns)"

fun py_in :: "'a list \<Rightarrow> 'a list \<Rightarrow> bool" where
  "py_in needle [] = (needle = [])"
| "py_in needle (h # hs) = (py_startswith (h # hs) needle \<or> py_in needle hs)"

text \<open>
  \<^verbatim>\<open>str.lower\<close> follows the Unicode case mapping of the Python runtime; the functions
  below take it as the parameter \<open>lower\<close>.  \<open>ascii_lower\<close> is the mapping restricted to
  ASCII letters and agrees with \<^verbatim>\<open>str.lower\<close> on every text without cased letters
  outside ASCII; it is the instance used on concrete inputs.
\<close>

definition ascii_lower :: "pystr \<Rightarrow> pystr" where
  "ascii_lower s = map (\<lambda>c. if 65 \<le> c \<and> c \<le> 90 then c + 32 else c) s"

section \<open>Query classification (\<^verbatim>\<open>UnifiedSearchEngine._determine_search_strategy\<close>)\<close>

text \<open>
  The FAQ keywords, in source order: login, application, password, cannot, error,
  account, user, sign-in, trouble, problem (each as its Japanese code points).
\<close>

definition faq_keywords :: "pystr list" where
  "faq_keywords =
     [[12525, 12464, 12452, 12531],
      [30003, 35531],
      [12497, 12473, 12527, 12540, 12489],
      [12391, 12365, 12394, 12356],
      [12456, 12521, 12540],
      [12450, 12459, 12454, 12531, 12488],
      [12518, 12540, 12470, 12540],
      [12469, 12452, 12531, 12452, 12531],
      [12488, 12521, 12502, 12523],
      [21839, 38988]]"

text \<open>
  The Manual keywords, in source order: procedure, method, setting, operation, screen,
  button, menu, feature, usage, system.
\<close>

definition manual_keywords :: "pystr list" where
  "manual_keywords =
     [[25163, 38918],
      [26041, 27861],
      [35373, 23450],
      [25805, 20316],
      [30011, 38754],
      [12508, 12479, 12531],
      [12513, 12491, 12517, 12540],
      [27231, 33021],
      [20351, 12356, 26041],
      [12471, 12473, 12486, 12512]]"

text \<open>\<^verbatim>\<open>sum(1 for keyword in keywords if keyword in query_lower)\<close>.\<close>

definition keyword_matches :: "pystr list \<Rightarrow> pystr \<Rightarrow> int" where
  "keyword_matches keywords query_lower =
     foldl (+) 0 (map (\<lambda>keyword. 1) (filter (\<lambda>keyword. py_in keyword query_lower) keywords))"

type_synonym pycontext = "(string \<times> mval) list"

definition determine_search_strategy ::
  "(pystr \<Rightarrow> pystr) \<Rightarrow> pystr \<Rightarrow> pycontext \<Rightarrow> string" where
  "determine_search_strategy lower query ctx =
     (let query_lower = lower query;
          faq_score = keyword_matches faq_keywords query_lower;
          manual_score = keyword_matches manual_keywords query_lower
      in if faq_score > manual_score then ''faq_focus''
         else if manual_score > faq_score then ''manual_focus''
         else ''balanced'')"

text \<open>
  The classifier as the specification words it: the FAQ keyword set is login,
  application, password, error, account, user, sign-in, trouble, problem; the Manual
  keyword set is the one above; a keyword counts when it occurs in the lower-cased
  query.
\<close>

definition spec_faq_keywords :: "pystr list" where
  "spec_faq_keywords =
     [[12525, 12464, 12452, 12531],
      [30003, 35531],
      [12497, 12473, 12527, 12540, 12489],
      [12456, 12521, 12540],
      [12450, 12459, 12454, 12531, 12488],
      [12518, 12540, 12470, 12540],
      [12469, 12452, 12531, 12452, 12531],
      [12488, 12521, 12502, 12523],
      [21839, 38988]]"

definition occurs_in :: "pystr \<Rightarrow> pystr \<Rightarrow> bool" where
  "occurs_in keyword txt = (\<exists>before after. txt = before @ keyword @ after)"

definition spec_keyword_count :: "pystr list \<Rightarrow> pystr \<Rightarrow> nat" where
  "spec_keyword_count keywords txt = length (filter (\<lambda>k. py_in k txt) keywords)"

definition spec_strategy :: "pystr list \<Rightarrow> pystr list \<Rightarrow> pystr \<Rightarrow> string" where
  "spec_strategy faq_set manual_set query_lower =
     (if spec_keyword_count faq_set query_lower > spec_keyword_count manual_set query_lower
        then ''faq_focus''
      else if spec_keyword_count manual_set query_lower > spec_keyword_count faq_set query_lower
        then ''manual_focus''
      else ''balanced'')"

section \<open>Sorting, slicing and whitespace as Python defines them\<close>

text \<open>
  \<^verbatim>\<open>xs.sort(key=k, reverse=True)\<close> is a stable sort placing larger keys first: elements
  with equal keys keep their original order.  The model is the insertion sort that puts
  each element in front of the first element whose key is not larger.
\<close>

fun insort_desc :: "('a \<Rightarrow> real) \<Rightarrow> 'a \<Rightarrow> 'a list \<Rightarrow> 'a list" where
  "insort_desc key x [] = [x]"
| "insort_desc key x (y # ys) =
     (if key x \<ge> key y then x # y # ys else y # insort_desc key x ys)"

fun sort_desc :: "('a \<Rightarrow> real) \<Rightarrow> 'a list \<Rightarrow> 'a list" where
  "sort_desc key [] = []"
| "sort_desc key (x # xs) = insort_desc key x (sort_desc key xs)"

text \<open>
  The slice \<^verbatim>\<open>xs[:n]\<close>: the first \<open>n\<close> elements for \<open>n \<ge> 0\<close>; for a negative
  \<open>n\<close> everything but the last \<open>-n\<close> elements.
\<close>

definition py_slice_to :: "int \<Rightarrow> 'a list \<Rightarrow> 'a list" where
  "py_slice_to n xs =
     (if 0 \<le> n then take (nat n) xs else take (length xs - nat (- n)) xs)"

text \<open>The code points that \<^verbatim>\<open>str.strip()\<close> removes (Unicode white space).\<close>

definition py_isspace :: "nat \<Rightarrow> bool" where
  "py_isspace c \<longleftrightarrow>
     (9 \<le> c \<and> c \<le> 13) \<or> (28 \<le> c \<and> c \<le> 32) \<or> c = 133 \<or> c = 160 \<or> c = 5760 \<or>
     (8192 \<le> c \<and> c \<le> 8202) \<or> c = 8232 \<or> c = 8233 \<or> c = 8239 \<or> c = 8287 \<or>
     c = 12288"

definition py_strip :: "pystr \<Rightarrow> pystr" where
  "py_strip s = rev (dropWhile py_isspace (rev (dropWhile py_isspace s)))"

text \<open>
  \<^verbatim>\<open>a or b\<close> on an optional number: \<^verbatim>\<open>None\<close> and zero are falsy and give \<open>b\<close>.
\<close>

definition or_default :: "'a::zero option \<Rightarrow> 'a \<Rightarrow> 'a" where
  "or_default a b = (case a of None \<Rightarrow> b | Some v \<Rightarrow> if v = 0 then b else v)"

text \<open>Truth value of a metadata value (\<^verbatim>\<open>if page\<close>).\<close>

fun truthy :: "mval \<Rightarrow> bool" where
  "truthy (MStr s) = (s \<noteq> [])"
| "truthy (MInt i) = (i \<noteq> 0)"
| "truthy (MFloat r) = (r \<noteq> 0)"
| "truthy (MBool b) = b"

text \<open>\<^verbatim>\<open>doc.split(marker, 1)[1]\<close>: what follows the first occurrence of the marker.\<close>

fun after_first :: "pystr \<Rightarrow> pystr \<Rightarrow> pystr" where
  "after_first marker [] = []"
| "after_first marker (c # cs) =
     (if py_startswith (c # cs) marker then drop (length marker) (c # cs)
      else after_first marker cs)"

section \<open>Configuration and the external collaborators\<close>

text \<open>\<^verbatim>\<open>configs.Config\<close>, the two values the search core consults, with their defaults.\<close>

record Config =
  MAX_SEARCH_RESULTS :: int
  SIMILARITY_THRESHOLD :: real

definition default_config :: Config where
  "default_config = \<lparr>MAX_SEARCH_RESULTS = 5, SIMILARITY_THRESHOLD = 0.7\<rparr>"

text \<open>
  The answer of the vector index to one query: three optional lists with one inner list
  per query embedding.
\<close>

record raw_results =
  documents :: "pystr list list option"
  metadatas :: "metadata list list option"
  distances :: "real list list option"

text \<open>
  What an adapter is built on: the embedding model, the index collection, and what
  the Python runtime supplies to the code: \<^verbatim>\<open>str()\<close> of a metadata value that is not a
  string, \<^verbatim>\<open>pathlib.Path(p).name\<close>, and the rounding \<open>fl\<close> of a real to the nearest
  float, which the float subtraction \<^verbatim>\<open>1 - distance\<close> applies to its result
  (comparisons and \<^verbatim>\<open>max\<close> are exact).  Both external services may raise.
\<close>

record adapter_env =
  encode :: "pystr list \<Rightarrow> error + real list list"
  index_query :: "real list \<Rightarrow> int \<Rightarrow> string \<Rightarrow> error + raw_results"
  str_of :: "mval \<Rightarrow> pystr"
  path_name :: "pystr \<Rightarrow> pystr"
  fl :: "real \<Rightarrow> real"

text \<open>The calls an adapter issues to the external services, in order.\<close>

datatype call = EncodeCall "pystr list" | QueryCall "real list" int string

text \<open>Formatting a metadata value inside an f-string.\<close>

definition fmt :: "adapter_env \<Rightarrow> mval \<Rightarrow> pystr" where
  "fmt env v = (case v of MStr s \<Rightarrow> s | _ \<Rightarrow> str_of env v)"

text \<open>\<^verbatim>\<open>xs[0]\<close> on an optional list.\<close>

definition first_of :: "'a list option \<Rightarrow> error + 'a" where
  "first_of xs = (case xs of None \<Rightarrow> Inl TypeError | Some [] \<Rightarrow> Inl IndexError | Some (x # _) \<Rightarrow> Inr x)"

text \<open>
  The constructor of \<^verbatim>\<open>SearchResult\<close> validates its fields: the score must lie in
  \<open>[0, 1]\<close>.
\<close>

definition new_SearchResult :: "pystr \<Rightarrow> pystr \<Rightarrow> real \<Rightarrow> metadata \<Rightarrow> error + SearchResult" where
  "new_SearchResult c s sc m =
     (if 0 \<le> sc \<and> sc \<le> 1 then Inr \<lparr>content = c, source = s, score = sc, metadata = m\<rparr>
      else Inl ValidationError)"

section \<open>FAQ adapter (\<^verbatim>\<open>FAQSearchEngine\<close>)\<close>

definition format_faq_content :: "adapter_env \<Rightarrow> metadata \<Rightarrow> pystr" where
  "format_faq_content env md =
     (let question = dict_get md ''question'' (MStr []);
          answer = dict_get md ''answer'' (MStr [])
      in [36074, 21839, 58, 32] @ fmt env question @ [10, 22238, 31572, 58, 32] @ fmt env answer)"

text \<open>The body of the loop over the zipped rows, for one row.\<close>

definition faq_row ::
  "adapter_env \<Rightarrow> real \<Rightarrow> pystr \<times> metadata \<times> real \<Rightarrow> error + SearchResult option" where
  "faq_row env min_score row =
     (case row of (doc, md, distance) \<Rightarrow>
        let similarity_score = max 0 (fl env (1 - distance))
        in if similarity_score \<ge> min_score then
             (case new_SearchResult
                     (format_faq_content env md)
                     ([70, 65, 81, 58, 32] @
                        fmt env (dict_get md ''question'' (MStr [85, 110, 107, 110, 111, 119, 110])))
                     similarity_score
                     [(''type'', MStr [102, 97, 113]),
                      (''question'', dict_get md ''question'' (MStr [])),
                      (''answer'', dict_get md ''answer'' (MStr [])),
                      (''original_distance'', MFloat distance)] of
                Inl e \<Rightarrow> Inl e
              | Inr search_result \<Rightarrow> Inr (Some search_result))
           else Inr None)"

text \<open>
  The loop: results are appended in row order; the first row that raises ends the
  loop with that exception.
\<close>

fun collect_rows ::
  "('r \<Rightarrow> error + SearchResult option) \<Rightarrow> 'r list \<Rightarrow> error + SearchResult list" where
  "collect_rows body [] = Inr []"
| "collect_rows body (row # rows) =
     (case body row of
        Inl e \<Rightarrow> Inl e
      | Inr found \<Rightarrow>
         (case collect_rows body rows of
            Inl e \<Rightarrow> Inl e
          | Inr search_results \<Rightarrow>
             Inr (case found of None \<Rightarrow> search_results | Some r \<Rightarrow> r # search_results)))"

definition zip3 :: "'a list \<Rightarrow> 'b list \<Rightarrow> 'c list \<Rightarrow> ('a \<times> 'b \<times> 'c) list" where
  "zip3 xs ys zs = zip xs (zip ys zs)"

definition faq_process_search_results ::
  "adapter_env \<Rightarrow> raw_results \<Rightarrow> real \<Rightarrow> error + SearchResult list" where
  "faq_process_search_results env raw min_score =
     (if documents raw = None \<or> documents raw = Some [] then Inr []
      else case first_of (documents raw) of
        Inl e \<Rightarrow> Inl e
      | Inr docs \<Rightarrow>
         if docs = [] then Inr []
         else case first_of (metadatas raw) of
           Inl e \<Rightarrow> Inl e
         | Inr mds \<Rightarrow>
            (case first_of (distances raw) of
               Inl e \<Rightarrow> Inl e
             | Inr dists \<Rightarrow>
                (case collect_rows (faq_row env min_score) (zip3 docs mds dists) of
                   Inl e \<Rightarrow> Inl e
                 | Inr search_results \<Rightarrow> Inr (sort_desc score search_results))))"

text \<open>
  \<^verbatim>\<open>search_faq\<close>: the result list together with the external calls issued.  Every
  exception is caught and gives the empty list.
\<close>

definition search_faq ::
  "adapter_env \<Rightarrow> Config \<Rightarrow> pystr \<Rightarrow> int option \<Rightarrow> real option \<Rightarrow> SearchResult list \<times> call list" where
  "search_faq env cfg query max_results min_score =
     (if py_strip query = [] then ([], [])
      else
        let max_results' = or_default max_results (MAX_SEARCH_RESULTS cfg);
            min_score' = or_default min_score (SIMILARITY_THRESHOLD cfg)
        in case encode env [query] of
             Inl e \<Rightarrow> ([], [EncodeCall [query]])
           | Inr embeddings \<Rightarrow>
              (case first_of (Some embeddings) of
                 Inl e \<Rightarrow> ([], [EncodeCall [query]])
               | Inr query_embedding \<Rightarrow>
                  (case index_query env query_embedding max_results' ''faq'' of
                     Inl e \<Rightarrow>
                       ([], [EncodeCall [query], QueryCall query_embedding max_results' ''faq''])
                   | Inr results \<Rightarrow>
                      (case faq_process_search_results env results min_score' of
                         Inl e \<Rightarrow>
                           ([], [EncodeCall [query],
                                 QueryCall query_embedding max_results' ''faq''])
                       | Inr search_results \<Rightarrow>
                           (search_results,
                            [EncodeCall [query],
                             QueryCall query_embedding max_results' ''faq''])))))"

section \<open>Manual adapter (\<^verbatim>\<open>ManualSearchEngine\<close>)\<close>

definition format_manual_content :: "adapter_env \<Rightarrow> metadata \<Rightarrow> pystr \<Rightarrow> pystr" where
  "format_manual_content env md document =
     (let title = dict_get md ''title'' (MStr [19981, 26126]);
          page = dict_get md ''page'' (MStr []);
          page_info = (if truthy page then [32, 40, 12506, 12540, 12472, 32] @ fmt env page @ [41]
                       else []);
          content' = (if py_in [20869, 23481, 58, 32] document
                      then after_first [20869, 23481, 58, 32] document
                      else document)
      in fmt env title @ page_info @ [10] @ content')"

definition format_source_info :: "adapter_env \<Rightarrow> metadata \<Rightarrow> error + pystr" where
  "format_source_info env md =
     (let file_path = dict_get md ''file_path'' (MStr []);
          title = dict_get md ''title'' (MStr []);
          page = dict_get md ''page'' (MStr []);
          named =
            (if truthy file_path then
               (case file_path of
                  MStr p \<Rightarrow> Inr ([12510, 12491, 12517, 12450, 12523, 58, 32] @ path_name env p)
                | _ \<Rightarrow> Inl TypeError)
             else Inr [12510, 12491, 12517, 12450, 12523])
      in case named of
           Inl e \<Rightarrow> Inl e
         | Inr source0 \<Rightarrow>
            (let source1 = (if truthy title then source0 @ [32, 45, 32] @ fmt env title
                            else source0);
                 source2 = (if truthy page
                            then source1 @ [32, 40, 12506, 12540, 12472, 32] @ fmt env page @ [41]
                            else source1)
             in Inr source2))"

definition manual_row ::
  "adapter_env \<Rightarrow> real \<Rightarrow> pystr \<times> metadata \<times> real \<Rightarrow> error + SearchResult option" where
  "manual_row env min_score row =
     (case row of (doc, md, distance) \<Rightarrow>
        let similarity_score = max 0 (fl env (1 - distance))
        in if similarity_score \<ge> min_score then
             (case format_source_info env md of
                Inl e \<Rightarrow> Inl e
              | Inr src \<Rightarrow>
                 (case new_SearchResult
                         (format_manual_content env md doc)
                         src
                         similarity_score
                         [(''type'', MStr [109, 97, 110, 117, 97, 108]),
                          (''title'', dict_get md ''title'' (MStr [])),
                          (''page'', dict_get md ''page'' (MInt 0)),
                          (''file_path'', dict_get md ''file_path'' (MStr [])),
                          (''original_distance'', MFloat distance)] of
                    Inl e \<Rightarrow> Inl e
                  | Inr search_result \<Rightarrow> Inr (Some search_result)))
           else Inr None)"

definition manual_process_search_results ::
  "adapter_env \<Rightarrow> raw_results \<Rightarrow> real \<Rightarrow> error + SearchResult list" where
  "manual_process_search_results env raw min_score =
     (if documents raw = None \<or> documents raw = Some [] then Inr []
      else case first_of (documents raw) of
        Inl e \<Rightarrow> Inl e
      | Inr docs \<Rightarrow>
         if docs = [] then Inr []
         else case first_of (metadatas raw) of
           Inl e \<Rightarrow> Inl e
         | Inr mds \<Rightarrow>
            (case first_of (distances raw) of
               Inl e \<Rightarrow> Inl e
             | Inr dists \<Rightarrow>
                (case collect_rows (manual_row env min_score) (zip3 docs mds dists) of
                   Inl e \<Rightarrow> Inl e
                 | Inr search_results \<Rightarrow> Inr (sort_desc score search_results))))"

definition search_manual ::
  "adapter_env \<Rightarrow> Config \<Rightarrow> pystr \<Rightarrow> int option \<Rightarrow> real option \<Rightarrow> SearchResult list \<times> call list" where
  "search_manual env cfg query max_results min_score =
     (if py_strip query = [] then ([], [])
      else
        let max_results' = or_default max_results (MAX_SEARCH_RESULTS cfg);
            min_score' = or_default min_score (SIMILARITY_THRESHOLD cfg)
        in case encode env [query] of
             Inl e \<Rightarrow> ([], [EncodeCall [query]])
           | Inr embeddings \<Rightarrow>
              (case first_of (Some embeddings) of
                 Inl e \<Rightarrow> ([], [EncodeCall [query]])
               | Inr query_embedding \<Rightarrow>
                  (case index_query env query_embedding max_results' ''manual'' of
                     Inl e \<Rightarrow>
                       ([], [EncodeCall [query], QueryCall query_embedding max_results' ''manual''])
                   | Inr results \<Rightarrow>
                      (case manual_process_search_results env results min_score' of
                         Inl e \<Rightarrow>
                           ([], [EncodeCall [query],
                                 QueryCall query_embedding max_results' ''manual''])
                       | Inr search_results \<Rightarrow>
                           (search_results,
                            [EncodeCall [query],
                             QueryCall query_embedding max_results' ''manual''])))))"

section \<open>Vocabulary for the adapter properties\<close>

text \<open>
  The conversion of a distance into a similarity, \<^verbatim>\<open>max(0, 1 - distance)\<close>, as the
  float expression it is: the subtraction rounds.
\<close>

definition similarity :: "(real \<Rightarrow> real) \<Rightarrow> real \<Rightarrow> real" where
  "similarity rnd distance = max 0 (rnd (1 - distance))"

text \<open>
  An index response for one query whose three inner lists are aligned by position.
\<close>

definition aligned :: "raw_results \<Rightarrow> pystr list \<Rightarrow> metadata list \<Rightarrow> real list \<Rightarrow> bool" where
  "aligned raw docs mds dists \<longleftrightarrow>
     documents raw = Some [docs] \<and> metadatas raw = Some [mds] \<and> distances raw = Some [dists] \<and>
     length docs = length mds \<and> length mds = length dists"

text \<open>
  What the caller of an adapter sees of a result processing that may have raised: the
  search method catches every exception and returns the empty list.
\<close>

definition result_or_empty :: "error + 'a list \<Rightarrow> 'a list" where
  "result_or_empty r = (case r of Inl e \<Rightarrow> [] | Inr xs \<Rightarrow> xs)"

text \<open>
  The result that belongs to one row of the response: content, source label and
  metadata formatted from the row's document and metadata, the score the similarity of
  the row's own distance.
\<close>

definition faq_result :: "adapter_env \<Rightarrow> pystr \<times> metadata \<times> real \<Rightarrow> SearchResult" where
  "faq_result env row =
     (case row of (doc, md, distance) \<Rightarrow>
        \<lparr>content = format_faq_content env md,
         source = [70, 65, 81, 58, 32] @
                    fmt env (dict_get md ''question'' (MStr [85, 110, 107, 110, 111, 119, 110])),
         score = similarity (fl env) distance,
         metadata = [(''type'', MStr [102, 97, 113]),
                     (''question'', dict_get md ''question'' (MStr [])),
                     (''answer'', dict_get md ''answer'' (MStr [])),
                     (''original_distance'', MFloat distance)]\<rparr>)"

definition manual_result :: "adapter_env \<Rightarrow> pystr \<times> metadata \<times> real \<Rightarrow> SearchResult" where
  "manual_result env row =
     (case row of (doc, md, distance) \<Rightarrow>
        \<lparr>content = format_manual_content env md doc,
         source = result_or_empty (format_source_info env md),
         score = similarity (fl env) distance,
         metadata = [(''type'', MStr [109, 97, 110, 117, 97, 108]),
                     (''title'', dict_get md ''title'' (MStr [])),
                     (''page'', dict_get md ''page'' (MInt 0)),
                     (''file_path'', dict_get md ''file_path'' (MStr [])),
                     (''original_distance'', MFloat distance)]\<rparr>)"

text \<open>The rows whose similarity reaches the threshold, in response order.\<close>

definition kept_rows ::
  "adapter_env \<Rightarrow> real \<Rightarrow> (pystr \<times> metadata \<times> real) list \<Rightarrow> (pystr \<times> metadata \<times> real) list" where
  "kept_rows env min_score rows =
     filter (\<lambda>row. min_score \<le> similarity (fl env) (snd (snd row))) rows"

text \<open>
  The output of an adapter over an aligned response.  It is empty, or it is the
  results of the kept rows sorted by score.  It is sorted by score descending.  Every
  result in it is the result of one position \<open>i\<close> of the response, built from the
  document, the metadata and the distance at that position, with the similarity of that
  distance as its score, and that score lies in \<open>[0, 1]\<close> and reaches the threshold.
  It is empty when every distance falls below the threshold.
\<close>

definition adapter_output ::
  "adapter_env \<Rightarrow> (pystr \<times> metadata \<times> real \<Rightarrow> SearchResult) \<Rightarrow> real \<Rightarrow>
   pystr list \<Rightarrow> metadata list \<Rightarrow> real list \<Rightarrow> SearchResult list \<Rightarrow> bool" where
  "adapter_output env build min_score docs mds dists out \<longleftrightarrow>
     (out = [] \<or>
      out = sort_desc score (map build (kept_rows env min_score (zip3 docs mds dists)))) \<and>
     sorted_wrt (\<lambda>a b. score a \<ge> score b) out \<and>
     (\<forall>r\<in>set out. 0 \<le> score r \<and> score r \<le> 1 \<and> min_score \<le> score r \<and>
        (\<exists>i<length dists. r = build (docs ! i, mds ! i, dists ! i) \<and>
           score r = similarity (fl env) (dists ! i))) \<and>
     ((\<forall>d\<in>set dists. similarity (fl env) d < min_score) \<longrightarrow> out = [])"

text \<open>
  Stub environments for concrete instances, with arithmetic rounded to multiples of
  \<open>1/1000\<close>.  The first response has three rows.  The second has two rows where the
  rounding of the subtraction decides: a slightly negative distance, and a distance just
  above \<open>0.3\<close> against the threshold \<open>0.7\<close>.
\<close>

definition sample_raw :: raw_results where
  "sample_raw =
     \<lparr>documents = Some [[[100], [101], [102]]],
      metadatas = Some [[[(''question'', MStr [81])], [], [(''page'', MInt 3)]]],
      distances = Some [[0.2, 0.5, 0.1]]\<rparr>"

definition sample_env :: adapter_env where
  "sample_env =
     \<lparr>encode = (\<lambda>texts. Inr (map (\<lambda>t. [1, 0]) texts)),
      index_query = (\<lambda>v n ty. Inr sample_raw),
      str_of = (\<lambda>v. [63]),
      path_name = (\<lambda>p. p),
      fl = grid_rounding\<rparr>"

definition sample_raw_rounding :: raw_results where
  "sample_raw_rounding =
     \<lparr>documents = Some [[[100], [101]]],
      metadatas = Some [[[], []]],
      distances = Some [[- 0.0001, 0.3004]]\<rparr>"

definition sample_env_rounding :: adapter_env where
  "sample_env_rounding = sample_env\<lparr>index_query := (\<lambda>v n ty. Inr sample_raw_rounding)\<rparr>"

section \<open>Fusion engine (\<^verbatim>\<open>UnifiedSearchEngine\<close>)\<close>

text \<open>
  The engine holds the two adapters.  Seen from the engine, an adapter is any callable
  taking the query, the result cap and the threshold, which returns a result list or
  raises.
\<close>

type_synonym adapter = "pystr \<Rightarrow> int option \<Rightarrow> real option \<Rightarrow> error + SearchResult list"

record UnifiedSearchEngine =
  faq_engine :: adapter
  manual_engine :: adapter

text \<open>The engine over the two adapters of this repository.\<close>

definition unified_engine :: "adapter_env \<Rightarrow> Config \<Rightarrow> UnifiedSearchEngine" where
  "unified_engine env cfg =
     \<lparr>faq_engine = (\<lambda>query max_results min_score.
                      Inr (fst (search_faq env cfg query max_results min_score))),
      manual_engine = (\<lambda>query max_results min_score.
                      Inr (fst (search_manual env cfg query max_results min_score)))\<rparr>"

text \<open>The per-source result dictionary, and \<^verbatim>\<open>d[k]\<close> on it.\<close>

type_synonym source_results = "string \<rightharpoonup> SearchResult list"

definition getitem :: "('k \<rightharpoonup> 'v) \<Rightarrow> 'k \<Rightarrow> error + 'v" where
  "getitem d k = (case d k of None \<Rightarrow> Inl KeyError | Some v \<Rightarrow> Inr v)"

text \<open>
  The body of the outer \<^verbatim>\<open>try\<close> of \<^verbatim>\<open>search_all\<close>: each adapter call sits in a
  \<^verbatim>\<open>try\<close> of its own, whose handler only logs.
\<close>

definition search_all_body ::
  "UnifiedSearchEngine \<Rightarrow> pystr \<Rightarrow> int \<Rightarrow> real option \<Rightarrow> error + source_results" where
  "search_all_body eng query max_results_per_source min_score =
     (let results0 = [''faq'' \<mapsto> [], ''manual'' \<mapsto> []];
          results1 =
            (case faq_engine eng query (Some max_results_per_source) min_score of
               Inl e \<Rightarrow> results0
             | Inr faq_results \<Rightarrow> results0(''faq'' \<mapsto> faq_results));
          results2 =
            (case manual_engine eng query (Some max_results_per_source) min_score of
               Inl e \<Rightarrow> results1
             | Inr manual_results \<Rightarrow> results1(''manual'' \<mapsto> manual_results))
      in case getitem results2 ''faq'' of
           Inl e \<Rightarrow> Inl e
         | Inr f \<Rightarrow>
            (case getitem results2 ''manual'' of
               Inl e \<Rightarrow> Inl e
             | Inr m \<Rightarrow> (let total_results = length f + length m in Inr results2)))"

text \<open>
  \<^verbatim>\<open>search_all\<close>; \<open>max_results_per_source\<close> defaults to 3 in the source.  The outer
  handler returns two empty lists, so the function has no error result.
\<close>

definition search_all ::
  "UnifiedSearchEngine \<Rightarrow> pystr \<Rightarrow> int \<Rightarrow> real option \<Rightarrow> source_results" where
  "search_all eng query max_results_per_source min_score =
     (case search_all_body eng query max_results_per_source min_score of
        Inl e \<Rightarrow> [''faq'' \<mapsto> [], ''manual'' \<mapsto> []]
      | Inr results \<Rightarrow> results)"

definition search_ranked_body ::
  "UnifiedSearchEngine \<Rightarrow> pystr \<Rightarrow> int \<Rightarrow> real option \<Rightarrow> error + SearchResult list" where
  "search_ranked_body eng query max_total_results min_score =
     (let search_results = search_all eng query max_total_results min_score
      in case getitem search_results ''faq'' of
           Inl e \<Rightarrow> Inl e
         | Inr f \<Rightarrow>
            (case getitem search_results ''manual'' of
               Inl e \<Rightarrow> Inl e
             | Inr m \<Rightarrow>
                (let all_results = [] @ f @ m;
                     sorted_results = sort_desc score all_results;
                     ranked_results = py_slice_to max_total_results sorted_results
                 in Inr ranked_results)))"

definition search_ranked ::
  "UnifiedSearchEngine \<Rightarrow> pystr \<Rightarrow> int \<Rightarrow> real option \<Rightarrow> SearchResult list" where
  "search_ranked eng query max_total_results min_score =
     (case search_ranked_body eng query max_total_results min_score of
        Inl e \<Rightarrow> []
      | Inr ranked_results \<Rightarrow> ranked_results)"

text \<open>
  \<^verbatim>\<open>smart_search\<close> reaches the classifier, \<^verbatim>\<open>search_all\<close> and \<^verbatim>\<open>search_ranked\<close>
  through \<^verbatim>\<open>self\<close>.  \<open>smart_search_with\<close> is its body over any three such methods,
  each of which may raise; \<open>smart_search\<close> is the body over the methods of this class.
\<close>

definition smart_search_with ::
  "(pystr \<Rightarrow> pycontext \<Rightarrow> error + string) \<Rightarrow>
   (pystr \<Rightarrow> int \<Rightarrow> real option \<Rightarrow> error + source_results) \<Rightarrow>
   (pystr \<Rightarrow> int \<Rightarrow> real option \<Rightarrow> error + SearchResult list) \<Rightarrow>
   pystr \<Rightarrow> pycontext option \<Rightarrow> SearchResult list \<times> string" where
  "smart_search_with determine all_method ranked_method query ctx =
     (let ctx' = (case ctx of None \<Rightarrow> [] | Some c \<Rightarrow> if c = [] then [] else c);
          attempt =
            (case determine query ctx' of
               Inl e \<Rightarrow> Inl e
             | Inr search_strategy \<Rightarrow>
                if search_strategy = ''faq_focus'' then
                  (case all_method query 4 None of
                     Inl e \<Rightarrow> Inl e
                   | Inr results \<Rightarrow>
                      (case getitem results ''faq'' of
                         Inl e \<Rightarrow> Inl e
                       | Inr f \<Rightarrow>
                          (case getitem results ''manual'' of
                             Inl e \<Rightarrow> Inl e
                           | Inr m \<Rightarrow>
                              Inr (py_slice_to 3 f @ py_slice_to 2 m, search_strategy))))
                else if search_strategy = ''manual_focus'' then
                  (case all_method query 4 None of
                     Inl e \<Rightarrow> Inl e
                   | Inr results \<Rightarrow>
                      (case getitem results ''manual'' of
                         Inl e \<Rightarrow> Inl e
                       | Inr m \<Rightarrow>
                          (case getitem results ''faq'' of
                             Inl e \<Rightarrow> Inl e
                           | Inr f \<Rightarrow>
                              Inr (py_slice_to 3 m @ py_slice_to 2 f, search_strategy))))
                else
                  (case ranked_method query 5 None of
                     Inl e \<Rightarrow> Inl e
                   | Inr final_results \<Rightarrow> Inr (final_results, search_strategy)))
      in case attempt of
           Inl e \<Rightarrow> ([], ''error'')
         | Inr r \<Rightarrow> r)"

definition smart_search ::
  "(pystr \<Rightarrow> pystr) \<Rightarrow> UnifiedSearchEngine \<Rightarrow> pystr \<Rightarrow> pycontext option \<Rightarrow>
   SearchResult list \<times> string" where
  "smart_search lower eng query ctx =
     smart_search_with
       (\<lambda>q c. Inr (determine_search_strategy lower q c))
       (\<lambda>q n ms. Inr (search_all eng q n ms))
       (\<lambda>q n ms. Inr (search_ranked eng q n ms))
       query ctx"

text \<open>Stub adapters for concrete instances.\<close>

definition sample_engine :: UnifiedSearchEngine where
  "sample_engine =
     \<lparr>faq_engine = (\<lambda>q n ms. Inr [sample_result 0.9, sample_result 0.8\<lparr>source := [70]\<rparr>,
                                   sample_result 0.8, sample_result 0.75]),
      manual_engine = (\<lambda>q n ms. Inr [sample_result 0.95, sample_result 0.8\<lparr>source := [77]\<rparr>,
                                      sample_result 0.7])\<rparr>"

definition failing_faq_engine :: UnifiedSearchEngine where
  "failing_faq_engine =
     \<lparr>faq_engine = (\<lambda>q n ms. Inl (ExternalError ''index down'')),
      manual_engine = (\<lambda>q n ms. Inr [sample_result 0.95])\<rparr>"

section \<open>Prompt templates (\<^verbatim>\<open>prompts.PromptTemplates\<close>)\<close>

text \<open>The fixed persona sent as the system message.\<close>

definition SYSTEM_ROLE :: pystr where
  "SYSTEM_ROLE =
     [10, 12354, 12394, 12383, 12399, 20250, 31038, 20869, 12398, 12469, 12509, 12540, 12488,
     12508, 12483, 12488, 12391, 12377, 12290, 10, 20197, 19979, 12398, 25351, 37341, 12395,
     24467, 12387, 12390, 12367, 12384, 12373, 12356, 65306, 10, 10, 22522, 26412, 23039,
     21218, 65306, 10, 45, 32, 20250, 31038, 20869, 12398, 24467, 26989, 21729, 12434,
     21161, 12369, 12427, 35242, 20999, 12394, 12450, 12471, 12473, 12479, 12531, 12488, 10,
     45, 32, 27491, 30906, 12391, 20998, 12363, 12426, 12420, 12377, 12356, 22238, 31572,
     12434, 24515, 12364, 12369, 12427, 10, 45, 32, 20998, 12363, 12425, 12394, 12356,
     12371, 12392, 12399, 20998, 12363, 12425, 12394, 12356, 12392, 27491, 30452, 12395,
     31572, 12360, 12427, 10, 10, 22238, 31572, 12473, 12479, 12452, 12523, 65306, 10, 45,
     32, 19969, 23527, 12391, 35242, 12375, 12415, 12420, 12377, 12356, 21475, 35519, 10,
     45, 32, 31777, 28500, 12391, 35201, 28857, 12434, 25972, 29702, 12375, 12383, 20869,
     23481, 10, 45, 32, 24517, 35201, 12395, 24540, 12376, 12390, 25163, 38918, 12434,
     30058, 21495, 20184, 12365, 12391, 35500, 26126, 10, 10, 27880, 24847, 28857, 65306,
     10, 45, 32, 25512, 28204, 12395, 12424, 12427, 22238, 31572, 12399, 36991, 12369,
     12427, 10, 45, 32, 26908, 32034, 32080, 26524, 12395, 12394, 12356, 24773, 22577,
     12399, 12300, 26908, 32034, 32080, 26524, 12395, 12354, 12426, 12414, 12379, 12435,
     12301, 12392, 20253, 12360, 12427, 10, 45, 32, 27231, 23494, 24773, 22577, 12395,
     38306, 12431, 12427, 36074, 21839, 12395, 12399, 22238, 31572, 12434, 25511, 12360,
     12427, 10]"

text \<open>
  \<^verbatim>\<open>NO_RESULTS_TEMPLATE\<close>, split at its only placeholder \<^verbatim>\<open>{question}\<close>: the text before
  it and the text after it.
\<close>

definition NO_RESULTS_TEMPLATE_before :: pystr where
  "NO_RESULTS_TEMPLATE_before =
     [10, 30003, 12375, 35379, 12372, 12374, 12356, 12414, 12379, 12435, 12364, 12289, 12300]"

definition NO_RESULTS_TEMPLATE_after :: pystr where
  "NO_RESULTS_TEMPLATE_after =
     [12301, 12395, 38306, 12377, 12427, 24773, 22577, 12434, 70, 65, 81, 12420, 12510,
     12491, 12517, 12450, 12523, 12363, 12425, 35211, 12388, 12369, 12427, 12371, 12392,
     12364, 12391, 12365, 12414, 12379, 12435, 12391, 12375, 12383, 12290, 10, 10, 20197,
     19979, 12398, 23550, 24540, 12434, 12362, 21223, 12417, 12375, 12414, 12377, 65306, 10,
     10, 49, 46, 32, 36074, 21839, 12398, 34920, 29694, 12434, 22793, 12360, 12390, 20877,
     24230, 12362, 35430, 12375, 12367, 12384, 12373, 12356, 10, 50, 46, 32, 12424, 12426,
     20855, 20307, 30340, 12394, 12461, 12540, 12527, 12540, 12489, 12391, 26908, 32034,
     12375, 12390, 12367, 12384, 12373, 12356, 10, 51, 46, 32, 30452, 25509, 25285, 24403,
     32773, 12395, 12362, 21839, 12356, 21512, 12431, 12379, 12367, 12384, 12373, 12356,
     65306, 10, 32, 32, 32, 45, 32, 20154, 20107, 38306, 36899, 65306, 20869, 32218, 49, 50,
     51, 52, 10, 32, 32, 32, 45, 32, 73, 84, 12469, 12509, 12540, 12488, 65306, 20869,
     32218, 53, 54, 55, 56, 10, 32, 32, 32, 45, 32, 32207, 21209, 38306, 36899, 65306,
     20869, 32218, 57, 48, 49, 50, 10, 10, 24341, 12365, 32154, 12365, 12362, 22256, 12426,
     12398, 12371, 12392, 12364, 12372, 12374, 12356, 12414, 12375, 12383, 12425, 12289,
     12362, 27671, 36605, 12395, 12362, 22768, 12364, 12369, 12367, 12384, 12373, 12356,
     12290, 10]"

definition generate_no_results_prompt :: "pystr \<Rightarrow> pystr" where
  "generate_no_results_prompt question' =
     NO_RESULTS_TEMPLATE_before @ question' @ NO_RESULTS_TEMPLATE_after"

text \<open>The two fixed apologies of the agent.\<close>

definition generation_failed_answer :: pystr where
  "generation_failed_answer =
     [22238, 31572, 12398, 29983, 25104, 20013, 12395, 12456, 12521, 12540, 12364, 30330,
     29983, 12375, 12414, 12375, 12383, 12290]"

definition system_error_answer :: pystr where
  "system_error_answer =
     [30003, 12375, 35379, 12372, 12374, 12356, 12414, 12379, 12435, 12364, 12289, 12471,
     12473, 12486, 12512, 12456, 12521, 12540, 12364, 30330, 29983, 12375, 12414, 12375,
     12383, 12290, 12375, 12400, 12425, 12367, 24453, 12387, 12390, 12363, 12425, 20877,
     24230, 12362, 35430, 12375, 12367, 12384, 12373, 12356, 12290]"

section \<open>Agent (\<^verbatim>\<open>SupportAgent\<close>)\<close>

text \<open>\<^verbatim>\<open>models.QuestionRequest\<close> and \<^verbatim>\<open>models.AnswerResponse\<close> (its time stamp left out).\<close>

record QuestionRequest =
  question :: pystr
  context' :: "pycontext option"

record AnswerResponse =
  answer :: pystr
  confidence :: real
  sources :: "SearchResult list"
  processing_time :: "real option"

text \<open>The constructor validates the confidence: it must lie in \<open>[0, 1]\<close>.\<close>

definition new_AnswerResponse ::
  "pystr \<Rightarrow> real \<Rightarrow> SearchResult list \<Rightarrow> real \<Rightarrow> error + AnswerResponse" where
  "new_AnswerResponse a c s t =
     (if 0 \<le> c \<and> c \<le> 1
      then Inr \<lparr>answer = a, confidence = c, sources = s, processing_time = Some t\<rparr>
      else Inl ValidationError)"

text \<open>
  What the agent is built on.  \<open>engine_smart_search\<close> is the \<^verbatim>\<open>smart_search\<close> of the
  search engine it holds.  \<open>chat\<close> is the text-generation call with its model name,
  messages (role and content), temperature and token limit; it yields
  \<^verbatim>\<open>response.choices[0].message.content\<close>, which may be \<^verbatim>\<open>None\<close>, or raises.  The three
  prompt builders that render result lists print scores with \<^verbatim>\<open>:.2f\<close> and are taken as
  given.
\<close>

record agent_env =
  engine_smart_search :: "pystr \<Rightarrow> pycontext option \<Rightarrow> error + SearchResult list \<times> string"
  chat :: "string \<Rightarrow> (string \<times> pystr) list \<Rightarrow> real \<Rightarrow> nat \<Rightarrow> error + pystr option"
  OPENAI_MODEL :: string
  generate_faq_prompt :: "pystr \<Rightarrow> SearchResult list \<Rightarrow> pystr"
  generate_manual_prompt :: "pystr \<Rightarrow> SearchResult list \<Rightarrow> pystr"
  generate_multi_source_prompt :: "pystr \<Rightarrow> SearchResult list \<Rightarrow> SearchResult list \<Rightarrow> pystr"

definition search_knowledge_base ::
  "agent_env \<Rightarrow> pystr \<Rightarrow> pycontext \<Rightarrow> SearchResult list \<times> string" where
  "search_knowledge_base env question' ctx =
     (case engine_smart_search env question' (Some ctx) of
        Inl e \<Rightarrow> ([], ''error'')
      | Inr (search_results, strategy) \<Rightarrow> (search_results, strategy))"

text \<open>\<^verbatim>\<open>content.strip()\<close> on the optional content of the reply.\<close>

definition stripped_content :: "error + pystr option \<Rightarrow> error + pystr" where
  "stripped_content reply =
     (case reply of
        Inl e \<Rightarrow> Inl e
      | Inr None \<Rightarrow> Inl AttributeError
      | Inr (Some c) \<Rightarrow> Inr (py_strip c))"

definition has_type :: "pystr \<Rightarrow> SearchResult \<Rightarrow> bool" where
  "has_type ty r \<longleftrightarrow> map_of (metadata r) ''type'' = Some (MStr ty)"

definition generate_answer_with_sources ::
  "agent_env \<Rightarrow> pystr \<Rightarrow> SearchResult list \<Rightarrow> string \<Rightarrow> pystr \<times> real" where
  "generate_answer_with_sources env question' search_results search_strategy =
     (let faq_results = filter (has_type [102, 97, 113]) search_results;
          manual_results = filter (has_type [109, 97, 110, 117, 97, 108]) search_results;
          prompt =
            (if faq_results \<noteq> [] \<and> manual_results \<noteq> []
               then generate_multi_source_prompt env question' faq_results manual_results
             else if faq_results \<noteq> [] then generate_faq_prompt env question' faq_results
             else if manual_results \<noteq> [] then generate_manual_prompt env question' manual_results
             else generate_no_results_prompt question')
      in case stripped_content
                (chat env (OPENAI_MODEL env)
                   [(''system'', SYSTEM_ROLE), (''user'', prompt)] 0.3 800) of
           Inl e \<Rightarrow> (generation_failed_answer, 0.0)
         | Inr answer' \<Rightarrow>
            (case calculate_confidence search_results search_strategy of
               Inl e \<Rightarrow> (generation_failed_answer, 0.0)
             | Inr confidence' \<Rightarrow> (answer', confidence')))"

definition generate_no_results_answer :: "agent_env \<Rightarrow> pystr \<Rightarrow> pystr \<times> real" where
  "generate_no_results_answer env question' =
     (let prompt = generate_no_results_prompt question'
      in case stripped_content
                (chat env (OPENAI_MODEL env)
                   [(''system'', SYSTEM_ROLE), (''user'', prompt)] 0.3 400) of
           Inl e \<Rightarrow> (generate_no_results_prompt question', 0.0)
         | Inr answer' \<Rightarrow> (answer', 0.1))"

text \<open>
  \<^verbatim>\<open>process_question\<close>, with the two clock readings as arguments: \<open>start_time\<close> at
  entry and \<open>now\<close> when the response is assembled.
\<close>

definition process_question ::
  "agent_env \<Rightarrow> QuestionRequest \<Rightarrow> real \<Rightarrow> real \<Rightarrow> AnswerResponse" where
  "process_question env question_request start_time now =
     (let question' = question question_request;
          ctx = (case context' question_request of
                   None \<Rightarrow> [] | Some c \<Rightarrow> if c = [] then [] else c);
          found = search_knowledge_base env question' ctx;
          search_results = fst found;
          search_strategy = snd found;
          generated =
            (if search_results \<noteq> []
             then generate_answer_with_sources env question' search_results search_strategy
             else generate_no_results_answer env question');
          search_results' = (if search_results \<noteq> [] then search_results else [])
      in case new_AnswerResponse (fst generated) (snd generated) search_results'
                (now - start_time) of
           Inl e \<Rightarrow>
             \<lparr>answer = system_error_answer, confidence = 0.0, sources = [],
              processing_time = Some (now - start_time)\<rparr>
         | Inr response \<Rightarrow> response)"

text \<open>Stub environments for concrete instances: an engine that finds nothing.\<close>

definition sample_agent_env :: "(error + pystr option) \<Rightarrow> agent_env" where
  "sample_agent_env reply =
     \<lparr>engine_smart_search = (\<lambda>q c. Inr ([], ''balanced'')),
      chat = (\<lambda>model messages temperature max_tokens. reply),
      OPENAI_MODEL = ''gpt-3.5-turbo'',
      generate_faq_prompt = (\<lambda>q rs. q),
      generate_manual_prompt = (\<lambda>q rs. q),
      generate_multi_source_prompt = (\<lambda>q fs ms. q)\<rparr>"

section \<open>Properties of the confidence estimator\<close>

lemma foldl_max_eq: "foldl (\<lambda>m y. if y > m then y else m) (x::real) xs = Max (insert x (set xs))"
proof (induction xs arbitrary: x)
  case Nil
  show ?case by simp
next
  case (Cons y ys)
  have "Max (insert (max x y) (set ys)) = Max (insert x (insert y (set ys)))"
    by (metis List.finite_set Max_insert Max_singleton finite.insertI insert_not_empty
        max.assoc)
  moreover have "(if y > x then y else x) = max x y" by (simp add: max_def)
  ultimately show ?case using Cons.IH [of "max x y"] by simp
qed

lemma py_max_eq_Max: "xs \<noteq> [] \<Longrightarrow> py_max xs = Inr (Max (set xs))"
  by (cases xs) (simp_all add: foldl_max_eq)

lemma foldl_add_real: "foldl (+) (a::real) xs = a + sum_list xs"
  by (induction xs arbitrary: a) simp_all

lemma py_sum_eq_sum_list: "py_sum xs = sum_list xs"
  by (simp add: py_sum_def foldl_add_real)

lemma strategy_factor_cases:
  "dict_get strategy_factors st 0.7 =
     (if st = ''faq_focus'' then 0.9
      else if st = ''manual_focus'' then 0.8
      else if st = ''balanced'' then 0.85
      else if st = ''error'' then 0.3
      else 0.7)"
  by (simp add: strategy_factors_def)

lemma strategy_factor_nonneg: "0 \<le> dict_get strategy_factors st 0.7"
  by (simp add: strategy_factor_cases)

lemma calculate_confidence_nonempty:
  assumes "rs \<noteq> []"
  shows "calculate_confidence rs st =
           Inr (confidence_of (Max (set (map score rs)))
                  (sum_list (map score rs) / real (length rs)) (length rs) st)"
proof -
  have m: "py_max (map score rs) = Inr (Max (set (map score rs)))"
    using assms by (intro py_max_eq_Max) simp
  have d: "py_truediv (py_sum (map score rs)) (real (length rs))
             = Inr (sum_list (map score rs) / real (length rs))"
    using assms by (simp add: py_truediv_def py_sum_eq_sum_list)
  show ?thesis
    unfolding calculate_confidence_def confidence_of_def Let_def
    using assms by (simp only: m d if_False sum.case) (simp add: mult.commute)
qed


text \<open>
  Claim C1.  For a non-empty result sequence the estimator returns
  clamp((0.6 * max + 0.4 * mean) * min(len / 3, 1) * strategy factor, 0, 1), where the
  strategy factor is 0.9 for faq_focus, 0.8 for manual_focus, 0.85 for balanced, 0.3 for
  error and 0.7 for every other tag; for the empty sequence it returns 0 whatever the
  tag.  In both cases it returns normally.
\<close>

theorem calculate_confidence_formula:
  "calculate_confidence [] st = Inr 0 \<and>
   (rs \<noteq> [] \<longrightarrow>
     calculate_confidence rs st =
       Inr (max 0 (min 1
         ((0.6 * spec_max_score rs + 0.4 * spec_mean_score rs)
            * min (real (length rs) / 3.0) 1.0
            * (if st = ''faq_focus'' then 0.9
               else if st = ''manual_focus'' then 0.8
               else if st = ''balanced'' then 0.85
               else if st = ''error'' then 0.3
               else 0.7)))))"
proof (intro conjI impI)
  show "calculate_confidence [] st = Inr 0"
    by (simp add: calculate_confidence_def)
next
  assume "rs \<noteq> []"
  then have e: "calculate_confidence rs st =
           Inr (confidence_of (Max (set (map score rs)))
                  (sum_list (map score rs) / real (length rs)) (length rs) st)"
    by (rule calculate_confidence_nonempty)
  show "calculate_confidence rs st =
       Inr (max 0 (min 1
         ((0.6 * spec_max_score rs + 0.4 * spec_mean_score rs)
            * min (real (length rs) / 3.0) 1.0
            * (if st = ''faq_focus'' then 0.9
               else if st = ''manual_focus'' then 0.8
               else if st = ''balanced'' then 0.85
               else if st = ''error'' then 0.3
               else 0.7))))"
    unfolding e confidence_of_def strategy_factor_cases spec_max_score_def spec_mean_score_def
    by simp
qed

theorem calculate_confidence_formula_witness:
  "[\<lparr>content = [], source = [], score = 0.8, metadata = []\<rparr>,
    \<lparr>content = [], source = [], score = 0.6, metadata = []\<rparr>] \<noteq> [] \<and>
   calculate_confidence
     [\<lparr>content = [], source = [], score = 0.8, metadata = []\<rparr>,
      \<lparr>content = [], source = [], score = 0.6, metadata = []\<rparr>] ''faq_focus''
     = Inr 0.456 \<and>
   calculate_confidence [] ''faq_focus'' = Inr 0"
  using calculate_confidence_formula
    [of "''faq_focus''"
        "[\<lparr>content = [], source = [], score = 0.8, metadata = []\<rparr>,
          \<lparr>content = [], source = [], score = 0.6, metadata = []\<rparr>]"]
  by (simp add: spec_max_score_def spec_mean_score_def)


















section \<open>Properties of the query classifier\<close>

lemma py_startswith_iff: "py_startswith hay needle \<longleftrightarrow> (\<exists>after. hay = needle @ after)"
  by (induction hay needle rule: py_startswith.induct) auto

lemma py_in_iff: "py_in needle hay \<longleftrightarrow> (\<exists>before after. hay = before @ needle @ after)"
proof (induction hay)
  case Nil
  show ?case by auto
next
  case (Cons h hs)
  show ?case
  proof
    assume "py_in needle (h # hs)"
    then consider "py_startswith (h # hs) needle" | "py_in needle hs" by auto
    then show "\<exists>before after. h # hs = before @ needle @ after"
    proof cases
      case 1
      then obtain after where "h # hs = needle @ after" by (auto simp: py_startswith_iff)
      then have "h # hs = [] @ needle @ after" by simp
      then show ?thesis by blast
    next
      case 2
      then obtain before after where "hs = before @ needle @ after" using Cons.IH by auto
      then have "h # hs = (h # before) @ needle @ after" by simp
      then show ?thesis by blast
    qed
  next
    assume "\<exists>before after. h # hs = before @ needle @ after"
    then obtain before after where e: "h # hs = before @ needle @ after" by blast
    show "py_in needle (h # hs)"
    proof (cases before)
      case Nil
      then have "py_startswith (h # hs) needle" using e by (auto simp: py_startswith_iff)
      then show ?thesis by simp
    next
      case (Cons b bs)
      then have "hs = bs @ needle @ after" using e by simp
      then have "py_in needle hs" using Cons.IH by blast
      then show ?thesis by simp
    qed
  qed
qed

lemma foldl_add_int: "foldl (+) (a::int) xs = a + sum_list xs"
  by (induction xs arbitrary: a) simp_all

lemma keyword_matches_eq:
  "keyword_matches keywords txt = int (length (filter (\<lambda>k. occurs_in k txt) keywords))"
proof -
  have "sum_list (map (\<lambda>k. 1::int) xs) = int (length xs)" for xs :: "pystr list"
    by (induction xs) simp_all
  then show ?thesis
    by (simp add: keyword_matches_def foldl_add_int occurs_in_def py_in_iff)
qed

lemma determine_search_strategy_eq:
  "determine_search_strategy lower query ctx =
     spec_strategy faq_keywords manual_keywords (lower query)"
  by (simp add: determine_search_strategy_def spec_strategy_def spec_keyword_count_def
      keyword_matches_eq occurs_in_def py_in_iff Let_def)

text \<open>
  Claim C3, as stated, at the query made of the single keyword "cannot": the code
  counts it as a FAQ keyword and answers faq_focus, while the keyword sets listed in the
  claim contain no match and give balanced.
\<close>

theorem determine_search_strategy_keyword_set_counterexample:
  "determine_search_strategy ascii_lower [12391, 12365, 12394, 12356] [] = ''faq_focus'' \<and>
   spec_strategy spec_faq_keywords manual_keywords (ascii_lower [12391, 12365, 12394, 12356])
     = ''balanced''"
  by (simp add: determine_search_strategy_def keyword_matches_def spec_strategy_def
      spec_keyword_count_def faq_keywords_def spec_faq_keywords_def manual_keywords_def
      ascii_lower_def)

text \<open>
  Claim C3, amended.  The classifier lower-cases the query and counts, for each of the
  two fixed keyword lists, how many keywords occur in it as a substring (each keyword
  once); the FAQ list is the claim's nine keywords together with "cannot", the Manual
  list is the claim's.  It returns faq_focus exactly when the FAQ count exceeds the
  Manual count, manual_focus exactly when the Manual count exceeds the FAQ count, and
  balanced exactly when the counts are equal.  The result depends on the query text
  alone, not on the context argument.
\<close>

theorem determine_search_strategy_classifies:
  "(determine_search_strategy lower query ctx = ''faq_focus'' \<longleftrightarrow>
      length (filter (\<lambda>k. occurs_in k (lower query)) faq_keywords)
        > length (filter (\<lambda>k. occurs_in k (lower query)) manual_keywords)) \<and>
   (determine_search_strategy lower query ctx = ''manual_focus'' \<longleftrightarrow>
      length (filter (\<lambda>k. occurs_in k (lower query)) manual_keywords)
        > length (filter (\<lambda>k. occurs_in k (lower query)) faq_keywords)) \<and>
   (determine_search_strategy lower query ctx = ''balanced'' \<longleftrightarrow>
      length (filter (\<lambda>k. occurs_in k (lower query)) faq_keywords)
        = length (filter (\<lambda>k. occurs_in k (lower query)) manual_keywords)) \<and>
   determine_search_strategy lower query ctx = determine_search_strategy lower query ctx' \<and>
   set faq_keywords = insert [12391, 12365, 12394, 12356] (set spec_faq_keywords)"
proof -
  let ?f = "length (filter (\<lambda>k. occurs_in k (lower query)) faq_keywords)"
  let ?m = "length (filter (\<lambda>k. occurs_in k (lower query)) manual_keywords)"
  have d: "determine_search_strategy lower query c =
             (if ?f > ?m then ''faq_focus'' else if ?m > ?f then ''manual_focus''
              else ''balanced'')" for c
    by (simp add: determine_search_strategy_def keyword_matches_eq Let_def)
  have s: "set faq_keywords = insert [12391, 12365, 12394, 12356] (set spec_faq_keywords)"
    by (auto simp: faq_keywords_def spec_faq_keywords_def)
  show ?thesis unfolding d using s by auto
qed

theorem determine_search_strategy_classifies_witness:
  "determine_search_strategy ascii_lower
     [12525, 12464, 12452, 12531, 12391, 12365, 12414, 12379, 12435] [] = ''faq_focus'' \<and>
   length (filter (\<lambda>k. occurs_in k
       (ascii_lower [12525, 12464, 12452, 12531, 12391, 12365, 12414, 12379, 12435]))
     faq_keywords)
   > length (filter (\<lambda>k. occurs_in k
       (ascii_lower [12525, 12464, 12452, 12531, 12391, 12365, 12414, 12379, 12435]))
     manual_keywords)"
proof -
  have "determine_search_strategy ascii_lower
     [12525, 12464, 12452, 12531, 12391, 12365, 12414, 12379, 12435] [] = ''faq_focus''"
    by (simp add: determine_search_strategy_def keyword_matches_def faq_keywords_def
        manual_keywords_def ascii_lower_def)
  then show ?thesis
    using determine_search_strategy_classifies
      [of ascii_lower "[12525, 12464, 12452, 12531, 12391, 12365, 12414, 12379, 12435]" "[]"]
    by simp
qed

section \<open>Properties of the descending stable sort\<close>

lemma mset_insort_desc: "mset (insort_desc key x ys) = add_mset x (mset ys)"
  by (induction ys) simp_all

lemma mset_sort_desc: "mset (sort_desc key xs) = mset xs"
  by (induction xs) (simp_all add: mset_insort_desc)

lemma set_sort_desc: "set (sort_desc key xs) = set xs"
  using mset_sort_desc [of key xs] by (metis set_mset_mset)

lemma length_sort_desc: "length (sort_desc key xs) = length xs"
  using mset_sort_desc [of key xs] by (metis size_mset)

lemma set_insort_desc: "set (insort_desc key x ys) = insert x (set ys)"
  using mset_insort_desc [of key x ys] by (metis set_mset_mset set_mset_add_mset_insert)

lemma sorted_insort_desc:
  "sorted_wrt (\<lambda>a b. key a \<ge> key b) ys \<Longrightarrow> sorted_wrt (\<lambda>a b. key a \<ge> key b) (insort_desc key x ys)"
proof (induction ys)
  case Nil
  show ?case by simp
next
  case (Cons y ys)
  show ?case
  proof (cases "key x \<ge> key y")
    case True
    then have "\<forall>z\<in>set (y # ys). key x \<ge> key z" using Cons.prems by fastforce
    then show ?thesis using True Cons.prems by simp
  next
    case False
    then have "key y \<ge> key x" by simp
    then have "\<forall>z\<in>set (insort_desc key x ys). key y \<ge> key z"
      using Cons.prems by (auto simp: set_insort_desc)
    then show ?thesis using False Cons by simp
  qed
qed

lemma sorted_sort_desc: "sorted_wrt (\<lambda>a b. key a \<ge> key b) (sort_desc key xs)"
  by (induction xs) (simp_all add: sorted_insort_desc)

lemma filter_insort_desc_other:
  "key x \<noteq> k \<Longrightarrow> filter (\<lambda>y. key y = k) (insort_desc key x ys) = filter (\<lambda>y. key y = k) ys"
  by (induction ys) simp_all

lemma filter_insort_desc_same:
  "sorted_wrt (\<lambda>a b. key a \<ge> key b) ys \<Longrightarrow>
   filter (\<lambda>y. key y = key x) (insort_desc key x ys) = x # filter (\<lambda>y. key y = key x) ys"
proof (induction ys)
  case Nil
  show ?case by simp
next
  case (Cons y ys)
  show ?case
  proof (cases "key x \<ge> key y")
    case True
    then show ?thesis by simp
  next
    case False
    then have "key y \<noteq> key x" by simp
    then show ?thesis using False Cons by simp
  qed
qed

text \<open>Stability: the elements of any one key keep their original order.\<close>

lemma sort_desc_stable:
  "filter (\<lambda>y. key y = k) (sort_desc key xs) = filter (\<lambda>y. key y = k) xs"
proof (induction xs)
  case Nil
  show ?case by simp
next
  case (Cons x xs)
  show ?case
  proof (cases "key x = k")
    case True
    then show ?thesis
      using filter_insort_desc_same [OF sorted_sort_desc, of key x xs] Cons.IH by simp
  next
    case False
    then show ?thesis using Cons.IH by (simp add: filter_insort_desc_other)
  qed
qed

lemma sort_desc_Nil_iff: "sort_desc key xs = [] \<longleftrightarrow> xs = []"
  using length_sort_desc [of key xs] by (metis length_0_conv)

section \<open>Properties of the adapters\<close>

lemma collect_rows_member:
  "collect_rows body rows = Inr out \<Longrightarrow> r \<in> set out \<Longrightarrow> \<exists>row\<in>set rows. body row = Inr (Some r)"
proof (induction rows arbitrary: out)
  case Nil
  then show ?case by simp
next
  case (Cons row rows)
  from Cons.prems(1) obtain found rest where
    b: "body row = Inr found" and c: "collect_rows body rows = Inr rest" and
    o: "out = (case found of None \<Rightarrow> rest | Some x \<Rightarrow> x # rest)"
    by (auto split: sum.splits)
  show ?case
  proof (cases "r \<in> set rest")
    case True
    then show ?thesis using Cons.IH [OF c] by auto
  next
    case False
    then have "found = Some r" using o Cons.prems(2) by (cases found) auto
    then show ?thesis using b by simp
  qed
qed

text \<open>A loop whose body keeps a row exactly when \<open>keep\<close> holds and then builds \<open>build\<close>.\<close>

lemma collect_rows_kept:
  assumes kept: "\<And>row r. body row = Inr (Some r) \<Longrightarrow> keep row \<and> r = build row"
      and dropped: "\<And>row. body row = Inr None \<Longrightarrow> \<not> keep row"
  shows "collect_rows body rows = Inr out \<Longrightarrow> out = map build (filter keep rows)"
proof (induction rows arbitrary: out)
  case Nil
  then show ?case by simp
next
  case (Cons row rows)
  from Cons.prems obtain found rest where
    b: "body row = Inr found" and c: "collect_rows body rows = Inr rest" and
    o: "out = (case found of None \<Rightarrow> rest | Some x \<Rightarrow> x # rest)"
    by (auto split: sum.splits)
  have ih: "rest = map build (filter keep rows)" using Cons.IH [OF c] .
  show ?case
  proof (cases found)
    case None
    then have "\<not> keep row" using dropped [of row] b by simp
    then show ?thesis using None o ih by simp
  next
    case (Some r)
    then have "keep row \<and> r = build row" using kept [of row r] b by simp
    then show ?thesis using Some o ih by simp
  qed
qed

lemma new_SearchResult_Inr:
  "new_SearchResult c s sc m = Inr r \<Longrightarrow>
     r = \<lparr>content = c, source = s, score = sc, metadata = m\<rparr> \<and> 0 \<le> sc \<and> sc \<le> 1"
  by (auto simp: new_SearchResult_def split: if_splits)

lemma similarity_nonneg: "0 \<le> similarity rnd d"
  by (simp add: similarity_def)

lemma faq_row_Some:
  assumes "faq_row env th row = Inr (Some r)"
  shows "th \<le> similarity (fl env) (snd (snd row)) \<and> r = faq_result env row \<and> score r \<le> 1"
proof -
  obtain doc md d where row: "row = (doc, md, d)" by (cases row) auto
  from assms have k: "th \<le> max 0 (fl env (1 - d))"
    by (auto simp: faq_row_def row Let_def split: if_splits)
  with assms obtain c s m where
    n: "new_SearchResult c s (max 0 (fl env (1 - d))) m = Inr r" and
    f: "faq_result env row = \<lparr>content = c, source = s, score = max 0 (fl env (1 - d)),
                               metadata = m\<rparr>"
    by (auto simp: faq_row_def row faq_result_def similarity_def Let_def
        split: if_splits sum.splits)
  from new_SearchResult_Inr [OF n] f k show ?thesis
    by (simp add: row similarity_def)
qed

lemma faq_row_None:
  "faq_row env th row = Inr None \<Longrightarrow> \<not> th \<le> similarity (fl env) (snd (snd row))"
  by (cases row) (auto simp: faq_row_def Let_def similarity_def split: if_splits sum.splits)

lemma manual_row_Some:
  assumes "manual_row env th row = Inr (Some r)"
  shows "th \<le> similarity (fl env) (snd (snd row)) \<and> r = manual_result env row \<and> score r \<le> 1"
proof -
  obtain doc md d where row: "row = (doc, md, d)" by (cases row) auto
  from assms have k: "th \<le> max 0 (fl env (1 - d))"
    by (auto simp: manual_row_def row Let_def split: if_splits)
  with assms obtain c s m where
    n: "new_SearchResult c s (max 0 (fl env (1 - d))) m = Inr r" and
    f: "manual_result env row = \<lparr>content = c, source = s, score = max 0 (fl env (1 - d)),
                                  metadata = m\<rparr>"
    by (auto simp: manual_row_def row manual_result_def similarity_def result_or_empty_def
        Let_def split: if_splits sum.splits)
  from new_SearchResult_Inr [OF n] f k show ?thesis
    by (simp add: row similarity_def)
qed

lemma manual_row_None:
  "manual_row env th row = Inr None \<Longrightarrow> \<not> th \<le> similarity (fl env) (snd (snd row))"
  by (cases row) (auto simp: manual_row_def Let_def similarity_def split: if_splits sum.splits)

lemma faq_result_score: "score (faq_result env row) = similarity (fl env) (snd (snd row))"
  by (cases row) (simp add: faq_result_def)

lemma manual_result_score: "score (manual_result env row) = similarity (fl env) (snd (snd row))"
  by (cases row) (simp add: manual_result_def)

lemma zip3_position:
  assumes "row \<in> set (zip3 docs mds dists)"
      and "length docs = length mds" and "length mds = length dists"
  shows "\<exists>i<length dists. row = (docs ! i, mds ! i, dists ! i)"
proof -
  from assms(1) obtain i where
    i: "i < length (zip docs (zip mds dists))" and r: "row = zip docs (zip mds dists) ! i"
    unfolding zip3_def by (metis in_set_conv_nth)
  have "i < length dists" using i assms(2,3) by simp
  moreover have "row = (docs ! i, mds ! i, dists ! i)" using i r assms(2,3) by simp
  ultimately show ?thesis by blast
qed

text \<open>The common part: a loop with a faithful body, followed by the sort.\<close>

lemma sorted_rows_adapter_output:
  assumes kept: "\<And>row r. body row = Inr (Some r) \<Longrightarrow>
                    th \<le> similarity (fl env) (snd (snd row)) \<and> r = build row \<and> score r \<le> 1"
      and dropped: "\<And>row. body row = Inr None \<Longrightarrow> \<not> th \<le> similarity (fl env) (snd (snd row))"
      and sc: "\<And>row. score (build row) = similarity (fl env) (snd (snd row))"
      and len: "length docs = length mds" "length mds = length dists"
      and run: "collect_rows body (zip3 docs mds dists) = Inr rows"
  shows "sort_desc score rows
           = sort_desc score (map build (kept_rows env th (zip3 docs mds dists))) \<and>
         adapter_output env build th docs mds dists (sort_desc score rows)"
proof -
  have rows: "rows = map build (kept_rows env th (zip3 docs mds dists))"
    unfolding kept_rows_def
    using kept dropped run
    by (intro collect_rows_kept
          [of body "\<lambda>row. th \<le> similarity (fl env) (snd (snd row))" build]) auto
  have each: "0 \<le> score r \<and> score r \<le> 1 \<and> th \<le> score r \<and>
        (\<exists>i<length dists. r = build (docs ! i, mds ! i, dists ! i) \<and>
           score r = similarity (fl env) (dists ! i))" if "r \<in> set (sort_desc score rows)" for r
  proof -
    from that have "r \<in> set rows" by (simp add: set_sort_desc)
    then obtain row where rw: "row \<in> set (zip3 docs mds dists)" "body row = Inr (Some r)"
      using collect_rows_member [OF run] by blast
    from kept [OF rw(2)] have k: "th \<le> similarity (fl env) (snd (snd row))"
      "r = build row" "score r \<le> 1" by auto
    from zip3_position [OF rw(1) len] obtain i where
      i: "i < length dists" "row = (docs ! i, mds ! i, dists ! i)" by blast
    have s: "score r = similarity (fl env) (dists ! i)" using k(2) sc [of row] i(2) by simp
    have "0 \<le> score r" using s similarity_nonneg by simp
    moreover have "th \<le> score r" using k(1) s i(2) by simp
    ultimately show ?thesis using k(2,3) s i by blast
  qed
  have none_out: "sort_desc score rows = []" if "\<forall>d\<in>set dists. similarity (fl env) d < th"
  proof -
    have "\<not> th \<le> similarity (fl env) (snd (snd row))" if "row \<in> set (zip3 docs mds dists)" for row
    proof -
      from zip3_position [OF that len] obtain i where
        "i < length dists" "row = (docs ! i, mds ! i, dists ! i)" by blast
      then have "dists ! i \<in> set dists" "snd (snd row) = dists ! i" by simp_all
      then have "similarity (fl env) (snd (snd row)) < th"
        using \<open>\<forall>d\<in>set dists. similarity (fl env) d < th\<close> by simp
      then show ?thesis by simp
    qed
    then have "kept_rows env th (zip3 docs mds dists) = []"
      by (auto simp: kept_rows_def filter_empty_conv)
    then show ?thesis using rows by simp
  qed
  show ?thesis
    unfolding adapter_output_def
    using rows sorted_sort_desc [of score rows] each none_out by auto
qed

lemma adapter_output_Nil: "adapter_output env build th docs mds dists []"
  by (simp add: adapter_output_def)

lemma faq_process_adapter_output:
  assumes "aligned raw docs mds dists"
  shows "adapter_output env (faq_result env) th docs mds dists
           (result_or_empty (faq_process_search_results env raw th)) \<and>
         (\<forall>out. faq_process_search_results env raw th = Inr out \<longrightarrow>
            out = sort_desc score
                    (map (faq_result env) (kept_rows env th (zip3 docs mds dists))))"
proof (cases "docs = []")
  case True
  then have "zip3 docs mds dists = []" by (simp add: zip3_def)
  moreover have "faq_process_search_results env raw th = Inr []"
    using True assms by (simp add: faq_process_search_results_def aligned_def first_of_def)
  ultimately show ?thesis
    by (simp add: result_or_empty_def adapter_output_Nil kept_rows_def)
next
  case False
  have e: "faq_process_search_results env raw th =
             (case collect_rows (faq_row env th) (zip3 docs mds dists) of
                Inl e \<Rightarrow> Inl e | Inr rows \<Rightarrow> Inr (sort_desc score rows))"
    using False assms by (simp add: faq_process_search_results_def aligned_def first_of_def)
  show ?thesis
  proof (cases "collect_rows (faq_row env th) (zip3 docs mds dists)")
    case (Inl err)
    then show ?thesis using e by (simp add: result_or_empty_def adapter_output_Nil)
  next
    case (Inr rows)
    have "sort_desc score rows
            = sort_desc score (map (faq_result env) (kept_rows env th (zip3 docs mds dists))) \<and>
          adapter_output env (faq_result env) th docs mds dists (sort_desc score rows)"
      using assms Inr faq_row_Some [of env th] faq_row_None [of env th]
      by (intro sorted_rows_adapter_output [of "faq_row env th" th env "faq_result env"])
         (auto simp: aligned_def faq_result_score)
    note h = this
    have r: "faq_process_search_results env raw th = Inr (sort_desc score rows)"
      using e Inr by simp
    have "adapter_output env (faq_result env) th docs mds dists
            (result_or_empty (Inr (sort_desc score rows)))"
      using h [THEN conjunct2] by (simp add: result_or_empty_def)
    moreover have "\<forall>out. Inr (sort_desc score rows) = (Inr out :: error + SearchResult list) \<longrightarrow>
            out = sort_desc score
                    (map (faq_result env) (kept_rows env th (zip3 docs mds dists)))"
      using h [THEN conjunct1] by auto
    ultimately show ?thesis unfolding r by (rule conjI)
  qed
qed

lemma manual_process_adapter_output:
  assumes "aligned raw docs mds dists"
  shows "adapter_output env (manual_result env) th docs mds dists
           (result_or_empty (manual_process_search_results env raw th)) \<and>
         (\<forall>out. manual_process_search_results env raw th = Inr out \<longrightarrow>
            out = sort_desc score
                    (map (manual_result env) (kept_rows env th (zip3 docs mds dists))))"
proof (cases "docs = []")
  case True
  then have "zip3 docs mds dists = []" by (simp add: zip3_def)
  moreover have "manual_process_search_results env raw th = Inr []"
    using True assms by (simp add: manual_process_search_results_def aligned_def first_of_def)
  ultimately show ?thesis
    by (simp add: result_or_empty_def adapter_output_Nil kept_rows_def)
next
  case False
  have e: "manual_process_search_results env raw th =
             (case collect_rows (manual_row env th) (zip3 docs mds dists) of
                Inl e \<Rightarrow> Inl e | Inr rows \<Rightarrow> Inr (sort_desc score rows))"
    using False assms by (simp add: manual_process_search_results_def aligned_def first_of_def)
  show ?thesis
  proof (cases "collect_rows (manual_row env th) (zip3 docs mds dists)")
    case (Inl err)
    then show ?thesis using e by (simp add: result_or_empty_def adapter_output_Nil)
  next
    case (Inr rows)
    have "sort_desc score rows
            = sort_desc score (map (manual_result env) (kept_rows env th (zip3 docs mds dists))) \<and>
          adapter_output env (manual_result env) th docs mds dists (sort_desc score rows)"
      using assms Inr manual_row_Some [of env th] manual_row_None [of env th]
      by (intro sorted_rows_adapter_output [of "manual_row env th" th env "manual_result env"])
         (auto simp: aligned_def manual_result_score)
    note h = this
    have r: "manual_process_search_results env raw th = Inr (sort_desc score rows)"
      using e Inr by simp
    have "adapter_output env (manual_result env) th docs mds dists
            (result_or_empty (Inr (sort_desc score rows)))"
      using h [THEN conjunct2] by (simp add: result_or_empty_def)
    moreover have "\<forall>out. Inr (sort_desc score rows) = (Inr out :: error + SearchResult list) \<longrightarrow>
            out = sort_desc score
                    (map (manual_result env) (kept_rows env th (zip3 docs mds dists)))"
      using h [THEN conjunct1] by auto
    ultimately show ?thesis unfolding r by (rule conjI)
  qed
qed

lemma search_faq_nonblank:
  assumes "py_strip query \<noteq> []" and "encode env [query] = Inr (v # vs)"
      and "index_query env v (or_default max_results (MAX_SEARCH_RESULTS cfg)) ''faq'' = Inr raw"
  shows "fst (search_faq env cfg query max_results min_score) =
           result_or_empty (faq_process_search_results env raw
              (or_default min_score (SIMILARITY_THRESHOLD cfg)))"
  using assms
  by (simp add: search_faq_def Let_def first_of_def result_or_empty_def split: sum.splits)

lemma search_manual_nonblank:
  assumes "py_strip query \<noteq> []" and "encode env [query] = Inr (v # vs)"
      and "index_query env v (or_default max_results (MAX_SEARCH_RESULTS cfg)) ''manual'' = Inr raw"
  shows "fst (search_manual env cfg query max_results min_score) =
           result_or_empty (manual_process_search_results env raw
              (or_default min_score (SIMILARITY_THRESHOLD cfg)))"
  using assms
  by (simp add: search_manual_def Let_def first_of_def result_or_empty_def split: sum.splits)

lemma py_strip_Nil_iff: "py_strip s = [] \<longleftrightarrow> (\<forall>c\<in>set s. py_isspace c)"
proof
  assume "py_strip s = []"
  then have e: "dropWhile py_isspace (rev (dropWhile py_isspace s)) = []"
    by (simp add: py_strip_def)
  show "\<forall>c\<in>set s. py_isspace c"
  proof (cases "dropWhile py_isspace s")
    case Nil
    then show ?thesis by (simp add: dropWhile_eq_Nil_conv)
  next
    case (Cons c cs)
    then have "\<not> py_isspace c" by (metis hd_dropWhile list.sel(1) list.simps(3))
    moreover have "\<forall>x\<in>set (rev (dropWhile py_isspace s)). py_isspace x"
      using e by (simp only: dropWhile_eq_Nil_conv)
    ultimately show ?thesis using Cons by simp
  qed
next
  assume "\<forall>c\<in>set s. py_isspace c"
  then show "py_strip s = []" by (auto simp: py_strip_def dest: set_dropWhileD)
qed






lemma grid_rounding_values:
  "grid_rounding (4 / 5) = 4 / 5" "grid_rounding (1 / 2) = 1 / 2" "grid_rounding (9 / 10) = 9 / 10"
  by (simp_all add: grid_rounding_def)

lemma sample_search_faq:
  "min_score = None \<or> min_score = Some 0 \<Longrightarrow>
   fst (search_faq sample_env default_config [97] max_results min_score)
     = [faq_result sample_env ([102], [(''page'', MInt 3)], 0.1),
        faq_result sample_env ([100], [(''question'', MStr [81])], 0.2)]"
  by (auto simp: search_faq_def sample_env_def sample_raw_def default_config_def py_strip_def
      py_isspace_def or_default_def first_of_def faq_process_search_results_def zip3_def
      faq_row_def new_SearchResult_def faq_result_def similarity_def grid_rounding_values
      Let_def)

lemma sample_faq_scores:
  "map score [faq_result sample_env ([102], [(''page'', MInt 3)], 0.1),
              faq_result sample_env ([100], [(''question'', MStr [81])], 0.2)] = [0.9, 0.8]"
  by (simp add: faq_result_score similarity_def sample_env_def grid_rounding_values)

lemma sample_search_manual:
  "min_score = None \<or> min_score = Some 0 \<Longrightarrow>
   map score (fst (search_manual sample_env default_config [97] max_results min_score)) = [0.9, 0.8]"
  by (auto simp: search_manual_def sample_env_def sample_raw_def default_config_def py_strip_def
      py_isspace_def or_default_def first_of_def manual_process_search_results_def zip3_def
      manual_row_def new_SearchResult_def format_source_info_def grid_rounding_values Let_def)

lemma grid_rounding_edges:
  "grid_rounding (10001 / 10000) = 1" "grid_rounding (1749 / 2500) = 7 / 10"
  by (simp_all add: grid_rounding_def)

lemma sample_search_rounding:
  "map score (fst (search_faq sample_env_rounding default_config [97] None None)) = [1, 0.7]"
  "map score (fst (search_manual sample_env_rounding default_config [97] None None)) = [1, 0.7]"
  by (auto simp: search_faq_def search_manual_def sample_env_rounding_def sample_env_def
      sample_raw_rounding_def default_config_def py_strip_def
      py_isspace_def or_default_def first_of_def faq_process_search_results_def
      manual_process_search_results_def zip3_def faq_row_def manual_row_def
      new_SearchResult_def format_source_info_def grid_rounding_edges Let_def)

lemma sample_aligned:
  "aligned sample_raw [[100], [101], [102]] [[(''question'', MStr [81])], [], [(''page'', MInt 3)]]
     [0.2, 0.5, 0.1]"
  by (simp add: aligned_def sample_raw_def)

lemma sample_nonblank: "py_strip [97] \<noteq> []"
  by (simp add: py_strip_def py_isspace_def)

text \<open>
  Claim C5.  For an adapter search (FAQ or Manual) whose index response has aligned
  documents, metadatas and distances: every returned result is the result of one
  position of the response, formatted from the document and metadata at that position
  and carrying as its score max(0, 1 - distance) of the distance at that same position
  (the float expression, whose subtraction rounds); every returned score lies in
  [0, 1] and is at least the threshold in force, results below it being discarded, so
  that the list is empty when every distance is below the threshold; and the results are
  sorted by score descending.  The same holds of the result processing on its own, which,
  when it does not raise, returns exactly the results of the rows at or above the
  threshold, sorted.
\<close>

theorem adapter_scores_from_distances:
  assumes "aligned raw docs mds dists"
  shows
    "(py_strip query \<noteq> [] \<and> encode env [query] = Inr (v # vs) \<and>
      index_query env v (or_default max_results (MAX_SEARCH_RESULTS cfg)) ''faq'' = Inr raw
      \<longrightarrow> adapter_output env (faq_result env)
            (or_default min_score (SIMILARITY_THRESHOLD cfg)) docs mds dists
            (fst (search_faq env cfg query max_results min_score))) \<and>
     (py_strip query \<noteq> [] \<and> encode env [query] = Inr (v # vs) \<and>
      index_query env v (or_default max_results (MAX_SEARCH_RESULTS cfg)) ''manual'' = Inr raw
      \<longrightarrow> adapter_output env (manual_result env)
            (or_default min_score (SIMILARITY_THRESHOLD cfg)) docs mds dists
            (fst (search_manual env cfg query max_results min_score))) \<and>
     adapter_output env (faq_result env) th docs mds dists
       (result_or_empty (faq_process_search_results env raw th)) \<and>
     adapter_output env (manual_result env) th docs mds dists
       (result_or_empty (manual_process_search_results env raw th)) \<and>
     (\<forall>out. faq_process_search_results env raw th = Inr out \<longrightarrow>
        out = sort_desc score (map (faq_result env) (kept_rows env th (zip3 docs mds dists)))) \<and>
     (\<forall>out. manual_process_search_results env raw th = Inr out \<longrightarrow>
        out = sort_desc score
                (map (manual_result env) (kept_rows env th (zip3 docs mds dists)))) \<and>
     score (faq_result env (doc, md, d)) = max 0 (fl env (1 - d)) \<and>
     score (manual_result env (doc, md, d)) = max 0 (fl env (1 - d))"
proof (intro conjI impI)
  assume h: "py_strip query \<noteq> [] \<and> encode env [query] = Inr (v # vs) \<and>
      index_query env v (or_default max_results (MAX_SEARCH_RESULTS cfg)) ''faq'' = Inr raw"
  then have "fst (search_faq env cfg query max_results min_score) =
           result_or_empty (faq_process_search_results env raw
              (or_default min_score (SIMILARITY_THRESHOLD cfg)))"
    by (intro search_faq_nonblank) auto
  then show "adapter_output env (faq_result env)
            (or_default min_score (SIMILARITY_THRESHOLD cfg)) docs mds dists
            (fst (search_faq env cfg query max_results min_score))"
    using faq_process_adapter_output [OF assms] by simp
next
  assume h: "py_strip query \<noteq> [] \<and> encode env [query] = Inr (v # vs) \<and>
      index_query env v (or_default max_results (MAX_SEARCH_RESULTS cfg)) ''manual'' = Inr raw"
  then have "fst (search_manual env cfg query max_results min_score) =
           result_or_empty (manual_process_search_results env raw
              (or_default min_score (SIMILARITY_THRESHOLD cfg)))"
    by (intro search_manual_nonblank) auto
  then show "adapter_output env (manual_result env)
            (or_default min_score (SIMILARITY_THRESHOLD cfg)) docs mds dists
            (fst (search_manual env cfg query max_results min_score))"
    using manual_process_adapter_output [OF assms] by simp
next
  show "adapter_output env (faq_result env) th docs mds dists
       (result_or_empty (faq_process_search_results env raw th))"
    using faq_process_adapter_output [OF assms] by simp
next
  show "adapter_output env (manual_result env) th docs mds dists
       (result_or_empty (manual_process_search_results env raw th))"
    using manual_process_adapter_output [OF assms] by simp
next
  show "\<forall>out. faq_process_search_results env raw th = Inr out \<longrightarrow>
        out = sort_desc score (map (faq_result env) (kept_rows env th (zip3 docs mds dists)))"
    using faq_process_adapter_output [OF assms] by simp
next
  show "\<forall>out. manual_process_search_results env raw th = Inr out \<longrightarrow>
        out = sort_desc score
                (map (manual_result env) (kept_rows env th (zip3 docs mds dists)))"
    using manual_process_adapter_output [OF assms] by simp
next
  show "score (faq_result env (doc, md, d)) = max 0 (fl env (1 - d))"
    by (simp add: faq_result_def similarity_def)
next
  show "score (manual_result env (doc, md, d)) = max 0 (fl env (1 - d))"
    by (simp add: manual_result_def similarity_def)
qed

theorem adapter_scores_from_distances_witness:
  "aligned sample_raw [[100], [101], [102]] [[(''question'', MStr [81])], [], [(''page'', MInt 3)]]
     [0.2, 0.5, 0.1] \<and>
   fst (search_faq sample_env default_config [97] None None)
     = [faq_result sample_env ([102], [(''page'', MInt 3)], 0.1),
        faq_result sample_env ([100], [(''question'', MStr [81])], 0.2)] \<and>
   map score (fst (search_faq sample_env default_config [97] None None)) = [0.9, 0.8] \<and>
   map score (fst (search_manual sample_env default_config [97] None None)) = [0.9, 0.8] \<and>
   sorted_wrt (\<lambda>a b. score a \<ge> score b)
     (fst (search_faq sample_env default_config [97] None None)) \<and>
   sorted_wrt (\<lambda>a b. score a \<ge> score b)
     (fst (search_manual sample_env default_config [97] None None)) \<and>
   map score (fst (search_faq sample_env_rounding default_config [97] None None)) = [1, 0.7] \<and>
   map score (fst (search_manual sample_env_rounding default_config [97] None None)) = [1, 0.7]"
proof -
  have e: "encode sample_env [[97]] = Inr ([1, 0] # [])"
    by (simp add: sample_env_def)
  have q: "index_query sample_env [1, 0]
             (or_default None (MAX_SEARCH_RESULTS default_config)) ty = Inr sample_raw" for ty
    by (simp add: sample_env_def)
  have a: "adapter_output sample_env (faq_result sample_env)
             (or_default None (SIMILARITY_THRESHOLD default_config))
             [[100], [101], [102]] [[(''question'', MStr [81])], [], [(''page'', MInt 3)]]
             [0.2, 0.5, 0.1] (fst (search_faq sample_env default_config [97] None None))"
    and b: "adapter_output sample_env (manual_result sample_env)
             (or_default None (SIMILARITY_THRESHOLD default_config))
             [[100], [101], [102]] [[(''question'', MStr [81])], [], [(''page'', MInt 3)]]
             [0.2, 0.5, 0.1] (fst (search_manual sample_env default_config [97] None None))"
    using adapter_scores_from_distances
      [OF sample_aligned, of "[97]" sample_env "[1, 0]" "[]" None default_config None]
      sample_nonblank e q
    by simp_all
  have "sorted_wrt (\<lambda>a b. score a \<ge> score b)
          (fst (search_faq sample_env default_config [97] None None))"
    using a unfolding adapter_output_def by blast
  moreover have "sorted_wrt (\<lambda>a b. score a \<ge> score b)
          (fst (search_manual sample_env default_config [97] None None))"
    using b unfolding adapter_output_def by blast
  moreover have "map score (fst (search_faq sample_env default_config [97] None None)) = [0.9, 0.8]"
    using sample_search_faq [of None None] sample_faq_scores by simp
  ultimately show ?thesis
    using sample_aligned sample_search_faq [of None None] sample_search_manual [of None None]
      sample_search_rounding
    by simp
qed

text \<open>
  Claim C8.  For an empty or whitespace-only query, the FAQ search and the Manual
  search return the empty list without issuing an embedding call or an index query, and
  without raising, whatever the environment.
\<close>

theorem blank_query_returns_empty:
  "(\<forall>c\<in>set query. py_isspace c) \<longrightarrow>
     search_faq env cfg query max_results min_score = ([], []) \<and>
     search_manual env cfg query max_results min_score = ([], [])"
  by (simp add: search_faq_def search_manual_def py_strip_Nil_iff)

theorem blank_query_returns_empty_witness:
  "py_isspace 32 \<and> py_isspace 12288 \<and> py_isspace 9 \<and>
   search_faq sample_env default_config [32, 12288, 9] None None = ([], []) \<and>
   search_manual sample_env default_config [32, 12288, 9] None None = ([], []) \<and>
   search_faq sample_env default_config [] None None = ([], [])"
  using blank_query_returns_empty [of "[32, 12288, 9]" sample_env default_config None None]
    blank_query_returns_empty [of "[]" sample_env default_config None None]
  by (simp add: py_isspace_def)



section \<open>Properties of the fusion engine\<close>

lemma py_slice_to_nonneg: "0 \<le> n \<Longrightarrow> py_slice_to n xs = take (nat n) xs"
  by (simp add: py_slice_to_def)

lemma length_py_slice_to_neg: "n < 0 \<Longrightarrow> length (py_slice_to n xs) = length xs - nat (- n)"
  by (simp add: py_slice_to_def)

lemma search_all_body_eq:
  "search_all_body eng query n min_score =
     Inr [''faq'' \<mapsto> result_or_empty (faq_engine eng query (Some n) min_score),
          ''manual'' \<mapsto> result_or_empty (manual_engine eng query (Some n) min_score)]"
proof -
  have twist: "[''faq'' \<mapsto> a, ''manual'' \<mapsto> b, ''faq'' \<mapsto> c] = [''faq'' \<mapsto> c, ''manual'' \<mapsto> b]"
    for a b c :: "SearchResult list"
    by (rule ext) simp
  show ?thesis
    by (cases "faq_engine eng query (Some n) min_score";
        cases "manual_engine eng query (Some n) min_score")
       (simp_all add: search_all_body_def getitem_def result_or_empty_def Let_def twist)
qed

lemma search_all_eq:
  "search_all eng query n min_score =
     [''faq'' \<mapsto> result_or_empty (faq_engine eng query (Some n) min_score),
      ''manual'' \<mapsto> result_or_empty (manual_engine eng query (Some n) min_score)]"
  by (simp add: search_all_def search_all_body_eq)

lemma search_ranked_eq:
  "search_ranked eng query n min_score =
     py_slice_to n (sort_desc score
       (result_or_empty (faq_engine eng query (Some n) min_score) @
        result_or_empty (manual_engine eng query (Some n) min_score)))"
  by (simp add: search_ranked_def search_ranked_body_def search_all_eq getitem_def Let_def)

lemma sample_search_ranked:
  "search_ranked sample_engine query 5 None =
     [sample_result 0.95, sample_result 0.9, sample_result 0.8\<lparr>source := [70]\<rparr>,
      sample_result 0.8, sample_result 0.8\<lparr>source := [77]\<rparr>]"
  by (simp add: search_ranked_eq sample_engine_def result_or_empty_def py_slice_to_def
      sample_result_def)

lemma determine_ignores_context:
  "determine_search_strategy lower query ctx = determine_search_strategy lower query []"
  by (simp add: determine_search_strategy_def)

lemma smart_search_faq_focus:
  assumes "determine_search_strategy lower query [] = ''faq_focus''"
  shows "smart_search lower eng query ctx =
           (take 3 (result_or_empty (faq_engine eng query (Some 4) None)) @
            take 2 (result_or_empty (manual_engine eng query (Some 4) None)), ''faq_focus'')"
  using assms determine_ignores_context [of lower query]
  by (simp add: smart_search_def smart_search_with_def search_all_eq getitem_def
      py_slice_to_def Let_def)

lemma smart_search_manual_focus:
  assumes "determine_search_strategy lower query [] = ''manual_focus''"
  shows "smart_search lower eng query ctx =
           (take 3 (result_or_empty (manual_engine eng query (Some 4) None)) @
            take 2 (result_or_empty (faq_engine eng query (Some 4) None)), ''manual_focus'')"
  using assms determine_ignores_context [of lower query]
  by (simp add: smart_search_def smart_search_with_def search_all_eq getitem_def
      py_slice_to_def Let_def)

lemma smart_search_balanced:
  assumes "determine_search_strategy lower query [] = ''balanced''"
  shows "smart_search lower eng query ctx = (search_ranked eng query 5 None, ''balanced'')"
  using assms determine_ignores_context [of lower query]
  by (simp add: smart_search_def smart_search_with_def Let_def)

lemma context_or_empty:
  "(case ctx of None \<Rightarrow> [] | Some c \<Rightarrow> if c = [] then [] else c)
     = (case ctx of None \<Rightarrow> [] | Some c \<Rightarrow> c)"
  by (simp split: option.splits)

lemma smart_search_with_error:
  assumes "determine query (case ctx of None \<Rightarrow> [] | Some c \<Rightarrow> c) = Inl e \<or>
           (\<exists>st. determine query (case ctx of None \<Rightarrow> [] | Some c \<Rightarrow> c) = Inr st \<and>
              (if st = ''faq_focus'' \<or> st = ''manual_focus''
               then all_method query 4 None = Inl e
               else ranked_method query 5 None = Inl e))"
  shows "smart_search_with determine all_method ranked_method query ctx = ([], ''error'')"
  using assms
  by (auto simp: smart_search_with_def context_or_empty Let_def split: if_splits)

text \<open>
  Claim C7.  Whatever the two adapters do, \<^verbatim>\<open>search_all\<close> does not raise (not even
  inside its outer \<^verbatim>\<open>try\<close>); the mapping it returns has exactly the entries
  \<open>faq\<close> and \<open>manual\<close>; an adapter that raises contributes the empty list and
  an adapter that returns contributes its list unchanged, independently of the other.
\<close>

theorem search_all_isolates_adapter_failures:
  "search_all_body eng query n min_score = Inr (search_all eng query n min_score) \<and>
   dom (search_all eng query n min_score) = {''faq'', ''manual''} \<and>
   search_all eng query n min_score ''faq''
     = Some (case faq_engine eng query (Some n) min_score of Inl e \<Rightarrow> [] | Inr rs \<Rightarrow> rs) \<and>
   search_all eng query n min_score ''manual''
     = Some (case manual_engine eng query (Some n) min_score of Inl e \<Rightarrow> [] | Inr rs \<Rightarrow> rs)"
  by (auto simp: search_all_eq search_all_body_eq result_or_empty_def)

theorem search_all_isolates_adapter_failures_witness:
  "search_all_body failing_faq_engine [97] 3 None
     = Inr (search_all failing_faq_engine [97] 3 None) \<and>
   search_all failing_faq_engine [97] 3 None ''faq'' = Some [] \<and>
   search_all failing_faq_engine [97] 3 None ''manual'' = Some [sample_result 0.95]"
  using search_all_isolates_adapter_failures [of failing_faq_engine "[97]" 3 None]
  by (simp add: failing_faq_engine_def)

text \<open>
  Claim C4, as stated, at \<open>max_total_results = -1\<close> with adapters returning four and
  three results: the slice drops only the last of the seven sorted results, so six are
  returned, which is not at most \<open>-1\<close>.
\<close>

theorem search_ranked_negative_cap_counterexample:
  "int (length (search_ranked sample_engine [97] (- 1) None)) = 6 \<and>
   \<not> int (length (search_ranked sample_engine [97] (- 1) None)) \<le> - 1"
proof -
  let ?all = "result_or_empty (faq_engine sample_engine [97] (Some (- 1)) None) @
              result_or_empty (manual_engine sample_engine [97] (Some (- 1)) None)"
  have l: "length ?all = 7"
    by (simp add: sample_engine_def result_or_empty_def)
  have "length (search_ranked sample_engine [97] (- 1) None)
          = length (sort_desc score ?all) - nat (- (- 1))"
    unfolding search_ranked_eq by (rule length_py_slice_to_neg) simp
  also have "\<dots> = 6"
    unfolding length_sort_desc l by simp
  finally show ?thesis by simp
qed

text \<open>
  Claim C4, amended.  \<^verbatim>\<open>search_ranked\<close> calls \<^verbatim>\<open>search_all\<close> with
  \<open>max_total_results\<close> as the cap of each source, concatenates the FAQ results and
  then the Manual results, sorts the concatenation by score descending, results of equal
  score keeping the order of the concatenation (FAQ before Manual), and returns the slice
  \<^verbatim>\<open>[:max_total_results]\<close> of it: for a non-negative \<open>max_total_results\<close> its first
  \<open>max_total_results\<close> elements, hence at most that many.
\<close>

theorem search_ranked_sorts_and_truncates:
  "search_ranked eng query n min_score =
     py_slice_to n (sort_desc score
       (the (search_all eng query n min_score ''faq'') @
        the (search_all eng query n min_score ''manual''))) \<and>
   (\<exists>f m. search_all eng query n min_score ''faq'' = Some f \<and>
          search_all eng query n min_score ''manual'' = Some m \<and>
          mset (sort_desc score (f @ m)) = mset (f @ m) \<and>
          sorted_wrt (\<lambda>a b. score a \<ge> score b) (sort_desc score (f @ m)) \<and>
          (\<forall>s. filter (\<lambda>r. score r = s) (sort_desc score (f @ m))
                = filter (\<lambda>r. score r = s) f @ filter (\<lambda>r. score r = s) m) \<and>
          (0 \<le> n \<longrightarrow> search_ranked eng query n min_score
                          = take (nat n) (sort_desc score (f @ m)))) \<and>
   sorted_wrt (\<lambda>a b. score a \<ge> score b) (search_ranked eng query n min_score) \<and>
   (0 \<le> n \<longrightarrow> int (length (search_ranked eng query n min_score)) \<le> n)"
proof -
  let ?f = "result_or_empty (faq_engine eng query (Some n) min_score)"
  let ?m = "result_or_empty (manual_engine eng query (Some n) min_score)"
  have f: "search_all eng query n min_score ''faq'' = Some ?f"
    and m: "search_all eng query n min_score ''manual'' = Some ?m"
    by (simp_all add: search_all_eq)
  have r: "search_ranked eng query n min_score = py_slice_to n (sort_desc score (?f @ ?m))"
    by (rule search_ranked_eq)
  have s: "sorted_wrt (\<lambda>a b. score a \<ge> score b) (sort_desc score (?f @ ?m))"
    by (rule sorted_sort_desc)
  have st: "filter (\<lambda>r. score r = s) (sort_desc score (?f @ ?m))
                = filter (\<lambda>r. score r = s) ?f @ filter (\<lambda>r. score r = s) ?m" for s
    by (simp add: sort_desc_stable)
  have sl: "sorted_wrt (\<lambda>a b. score a \<ge> score b) (py_slice_to n (sort_desc score (?f @ ?m)))"
    unfolding py_slice_to_def using s by (simp add: sorted_wrt_take)
  have len: "int (length (search_ranked eng query n min_score)) \<le> n" if "0 \<le> n"
    using that by (simp add: r py_slice_to_nonneg)
  show ?thesis
    using f m r s st sl len by (simp add: mset_sort_desc py_slice_to_nonneg)
qed

theorem search_ranked_sorts_and_truncates_witness:
  "(0::int) \<le> 5 \<and>
   map score (search_ranked sample_engine [97] 5 None) = [0.95, 0.9, 0.8, 0.8, 0.8] \<and>
   map source (search_ranked sample_engine [97] 5 None) = [[], [], [70], [], [77]] \<and>
   int (length (search_ranked sample_engine [97] 5 None)) \<le> 5"
proof -
  have "(0::int) \<le> 5 \<longrightarrow> int (length (search_ranked sample_engine [97] 5 None)) \<le> 5"
    by (rule search_ranked_sorts_and_truncates
          [of sample_engine "[97]" 5 None, THEN conjunct2, THEN conjunct2, THEN conjunct2])
  then have "int (length (search_ranked sample_engine [97] 5 None)) \<le> 5" by simp
  then show ?thesis by (simp add: sample_search_ranked sample_result_def)
qed

text \<open>
  Claim C2.  When the classifier answers faq_focus, \<^verbatim>\<open>smart_search\<close> asks each
  adapter for up to 4 results and returns the first 3 FAQ results followed by the first 2
  Manual results, whatever their scores; when it answers manual_focus, the first 3
  Manual results followed by the first 2 FAQ results; when it answers balanced, the
  output of \<^verbatim>\<open>search_ranked\<close> with a cap of 5; each paired with the strategy tag.  When
  the classifier, \<^verbatim>\<open>search_all\<close> or \<^verbatim>\<open>search_ranked\<close> raises inside it, it returns
  the empty list paired with the tag error.
\<close>

theorem smart_search_dispatch:
  "(determine_search_strategy lower query [] = ''faq_focus'' \<longrightarrow>
      smart_search lower eng query ctx =
        (take 3 (result_or_empty (faq_engine eng query (Some 4) None)) @
         take 2 (result_or_empty (manual_engine eng query (Some 4) None)), ''faq_focus'')) \<and>
   (determine_search_strategy lower query [] = ''manual_focus'' \<longrightarrow>
      smart_search lower eng query ctx =
        (take 3 (result_or_empty (manual_engine eng query (Some 4) None)) @
         take 2 (result_or_empty (faq_engine eng query (Some 4) None)), ''manual_focus'')) \<and>
   (determine_search_strategy lower query [] = ''balanced'' \<longrightarrow>
      smart_search lower eng query ctx = (search_ranked eng query 5 None, ''balanced'')) \<and>
   (determine query (case ctx of None \<Rightarrow> [] | Some c \<Rightarrow> c) = Inl e \<longrightarrow>
      smart_search_with determine all_method ranked_method query ctx = ([], ''error'')) \<and>
   (determine query (case ctx of None \<Rightarrow> [] | Some c \<Rightarrow> c) = Inr st \<and>
    (st = ''faq_focus'' \<or> st = ''manual_focus'') \<and> all_method query 4 None = Inl e \<longrightarrow>
      smart_search_with determine all_method ranked_method query ctx = ([], ''error'')) \<and>
   (determine query (case ctx of None \<Rightarrow> [] | Some c \<Rightarrow> c) = Inr st \<and>
    st \<noteq> ''faq_focus'' \<and> st \<noteq> ''manual_focus'' \<and> ranked_method query 5 None = Inl e \<longrightarrow>
      smart_search_with determine all_method ranked_method query ctx = ([], ''error''))"
proof (intro conjI impI)
  assume "determine_search_strategy lower query [] = ''faq_focus''"
  then show "smart_search lower eng query ctx =
        (take 3 (result_or_empty (faq_engine eng query (Some 4) None)) @
         take 2 (result_or_empty (manual_engine eng query (Some 4) None)), ''faq_focus'')"
    by (rule smart_search_faq_focus)
next
  assume "determine_search_strategy lower query [] = ''manual_focus''"
  then show "smart_search lower eng query ctx =
        (take 3 (result_or_empty (manual_engine eng query (Some 4) None)) @
         take 2 (result_or_empty (faq_engine eng query (Some 4) None)), ''manual_focus'')"
    by (rule smart_search_manual_focus)
next
  assume "determine_search_strategy lower query [] = ''balanced''"
  then show "smart_search lower eng query ctx = (search_ranked eng query 5 None, ''balanced'')"
    by (rule smart_search_balanced)
next
  assume "determine query (case ctx of None \<Rightarrow> [] | Some c \<Rightarrow> c) = Inl e"
  then show "smart_search_with determine all_method ranked_method query ctx = ([], ''error'')"
    by (intro smart_search_with_error [of determine query ctx e]) simp
next
  assume "determine query (case ctx of None \<Rightarrow> [] | Some c \<Rightarrow> c) = Inr st \<and>
    (st = ''faq_focus'' \<or> st = ''manual_focus'') \<and> all_method query 4 None = Inl e"
  then show "smart_search_with determine all_method ranked_method query ctx = ([], ''error'')"
    by (intro smart_search_with_error [of determine query ctx e all_method]) auto
next
  assume "determine query (case ctx of None \<Rightarrow> [] | Some c \<Rightarrow> c) = Inr st \<and>
    st \<noteq> ''faq_focus'' \<and> st \<noteq> ''manual_focus'' \<and> ranked_method query 5 None = Inl e"
  then show "smart_search_with determine all_method ranked_method query ctx = ([], ''error'')"
    by (intro smart_search_with_error [of determine query ctx e all_method ranked_method]) auto
qed

lemma sample_strategies:
  "determine_search_strategy ascii_lower [12525, 12464, 12452, 12531] [] = ''faq_focus''"
  "determine_search_strategy ascii_lower [25163, 38918] [] = ''manual_focus''"
  "determine_search_strategy ascii_lower [97] [] = ''balanced''"
  by (simp_all add: determine_search_strategy_def keyword_matches_def faq_keywords_def
      manual_keywords_def ascii_lower_def)

theorem smart_search_dispatch_witness:
  "map score (fst (smart_search ascii_lower sample_engine [12525, 12464, 12452, 12531] None))
     = [0.9, 0.8, 0.8, 0.95, 0.8] \<and>
   snd (smart_search ascii_lower sample_engine [12525, 12464, 12452, 12531] None) = ''faq_focus'' \<and>
   map score (fst (smart_search ascii_lower sample_engine [25163, 38918] None))
     = [0.95, 0.8, 0.7, 0.9, 0.8] \<and>
   snd (smart_search ascii_lower sample_engine [25163, 38918] None) = ''manual_focus'' \<and>
   smart_search ascii_lower sample_engine [97] None
     = (search_ranked sample_engine [97] 5 None, ''balanced'') \<and>
   smart_search_with (\<lambda>q c. Inl AttributeError) (\<lambda>q n ms. Inr Map.empty) (\<lambda>q n ms. Inr [])
     [12525, 12464, 12452, 12531] None = ([], ''error'') \<and>
   smart_search_with (\<lambda>q c. Inr ''faq_focus'') (\<lambda>q n ms. Inl KeyError) (\<lambda>q n ms. Inr [])
     [25163, 38918] None = ([], ''error'') \<and>
   smart_search_with (\<lambda>q c. Inr ''balanced'') (\<lambda>q n ms. Inr Map.empty) (\<lambda>q n ms. Inl TypeError)
     [97] None = ([], ''error'')"
  using
    smart_search_dispatch [of ascii_lower "[12525, 12464, 12452, 12531]" sample_engine None
      "\<lambda>q c. Inl AttributeError" AttributeError "\<lambda>q n ms. Inr Map.empty" "\<lambda>q n ms. Inr []"
      "''faq_focus''"]
    smart_search_dispatch [of ascii_lower "[25163, 38918]" sample_engine None
      "\<lambda>q c. Inr ''faq_focus''" KeyError "\<lambda>q n ms. Inl KeyError" "\<lambda>q n ms. Inr []"
      "''faq_focus''"]
    smart_search_dispatch [of ascii_lower "[97]" sample_engine None
      "\<lambda>q c. Inr ''balanced''" TypeError "\<lambda>q n ms. Inr Map.empty" "\<lambda>q n ms. Inl TypeError"
      "''balanced''"]
    sample_strategies
  by (simp add: sample_engine_def result_or_empty_def sample_result_def)

section \<open>Properties of the agent\<close>

lemma process_question_no_results:
  assumes "fst (search_knowledge_base env (question req)
                  (case context' req of None \<Rightarrow> [] | Some c \<Rightarrow> c)) = []"
  shows "process_question env req t0 t1 =
           (case stripped_content
                   (chat env (OPENAI_MODEL env)
                      [(''system'', SYSTEM_ROLE),
                       (''user'', generate_no_results_prompt (question req))] 0.3 400) of
              Inl e \<Rightarrow> \<lparr>answer = generate_no_results_prompt (question req), confidence = 0,
                         sources = [], processing_time = Some (t1 - t0)\<rparr>
            | Inr a \<Rightarrow> \<lparr>answer = a, confidence = 0.1, sources = [],
                         processing_time = Some (t1 - t0)\<rparr>)"
proof -
  have c: "(case context' req of None \<Rightarrow> [] | Some c \<Rightarrow> if c = [] then [] else c)
             = (case context' req of None \<Rightarrow> [] | Some c \<Rightarrow> c)"
    by (rule context_or_empty)
  show ?thesis
    unfolding process_question_def c Let_def
    using assms
    by (simp add: generate_no_results_answer_def new_AnswerResponse_def split: sum.splits)
qed

text \<open>
  Claim C6.  When the fused search yields no result, the agent sends the no-results
  template to the text generation; if that returns a text, the response carries that
  text, stripped, with the fixed confidence 0.1, which is not the value of the general
  estimator on the (empty) sources; if the generation raises or returns no content, the
  confidence is 0.0.  In either case the response has no sources.
\<close>

theorem no_results_confidence:
  assumes "fst (search_knowledge_base env (question req)
                  (case context' req of None \<Rightarrow> [] | Some c \<Rightarrow> c)) = []"
  shows
    "sources (process_question env req t0 t1) = [] \<and>
     (chat env (OPENAI_MODEL env)
        [(''system'', SYSTEM_ROLE), (''user'', generate_no_results_prompt (question req))]
        0.3 400 = Inr (Some c) \<longrightarrow>
          answer (process_question env req t0 t1) = py_strip c \<and>
          confidence (process_question env req t0 t1) = 0.1 \<and>
          calculate_confidence (sources (process_question env req t0 t1)) st
            \<noteq> Inr (confidence (process_question env req t0 t1))) \<and>
     (chat env (OPENAI_MODEL env)
        [(''system'', SYSTEM_ROLE), (''user'', generate_no_results_prompt (question req))]
        0.3 400 = Inr None \<or>
      chat env (OPENAI_MODEL env)
        [(''system'', SYSTEM_ROLE), (''user'', generate_no_results_prompt (question req))]
        0.3 400 = Inl e \<longrightarrow>
          confidence (process_question env req t0 t1) = 0.0) \<and>
     (confidence (process_question env req t0 t1) = 0.1 \<or>
      confidence (process_question env req t0 t1) = 0.0)"
  unfolding process_question_no_results [OF assms]
  by (auto simp: stripped_content_def calculate_confidence_def split: sum.splits option.splits)

theorem no_results_confidence_witness:
  "fst (search_knowledge_base (sample_agent_env (Inr (Some [32, 79, 75, 32]))) [97] []) = [] \<and>
   answer (process_question (sample_agent_env (Inr (Some [32, 79, 75, 32])))
             \<lparr>question = [97], context' = None\<rparr> 10 12) = [79, 75] \<and>
   confidence (process_question (sample_agent_env (Inr (Some [32, 79, 75, 32])))
             \<lparr>question = [97], context' = None\<rparr> 10 12) = 0.1 \<and>
   confidence (process_question (sample_agent_env (Inl (ExternalError ''timeout'')))
             \<lparr>question = [97], context' = None\<rparr> 10 12) = 0.0"
proof -
  have s: "fst (search_knowledge_base (sample_agent_env reply) [97] []) = []" for reply
    by (simp add: search_knowledge_base_def sample_agent_env_def)
  have k: "py_strip [32, 79, 75, 32] = [79, 75]"
    by (simp add: py_strip_def py_isspace_def)
  have c: "chat (sample_agent_env reply) m ms t n = reply" for reply m ms t n
    by (simp add: sample_agent_env_def)
  show ?thesis
    using
      no_results_confidence [of "sample_agent_env (Inr (Some [32, 79, 75, 32]))"
        "\<lparr>question = [97], context' = None\<rparr>" 10 12 "[32, 79, 75, 32]" "''balanced''"
        "ExternalError ''timeout''"]
      no_results_confidence [of "sample_agent_env (Inl (ExternalError ''timeout''))"
        "\<lparr>question = [97], context' = None\<rparr>" 10 12 "[32, 79, 75, 32]" "''balanced''"
        "ExternalError ''timeout''"]
      s k
    by (simp add: c)
qed

end
